theory Spec2Isabelle
  imports Complex_Main "HOL-Library.AList"
begin

section \<open>Values of the JavaScript runtime\<close>

text \<open>
  The server keeps JSON values that clients send and reads their properties without
  validating them, so a field of a participant may hold any JSON value or be absent.
  A JSON object is an association list in property order; a parsed object has distinct
  keys. A number is modelled by the integer it denotes: a \<open>JNum\<close> holds the value of
  a finite, integer-valued double, which every integer below \<open>2 ^ 53\<close> in magnitude
  is; fractional and infinite numbers are outside the model. A string is a list of code
  units below 256. An absent property (JavaScript's \<open>undefined\<close>) is \<open>None\<close>.
\<close>

datatype json =
    JNull
  | JBool bool
  | JNum int
  | JStr string
  | JArr "json list"
  | JObj "(string \<times> json) list"

type_synonym fields = "(string \<times> json) list"

text \<open>The only exception the handlers can raise is a \<open>TypeError\<close>.\<close>

datatype error = TypeError

text \<open>Property read \<open>p.key\<close> on a record.\<close>

definition get_field :: "fields \<Rightarrow> string \<Rightarrow> json option" where
  "get_field p k = map_of p k"

text \<open>\<open>ToBoolean\<close>: the falsy values are undefined, null, false, 0 and the empty string.\<close>

fun truthy :: "json option \<Rightarrow> bool" where
  "truthy None = False"
| "truthy (Some JNull) = False"
| "truthy (Some (JBool b)) = b"
| "truthy (Some (JNum n)) = (n \<noteq> 0)"
| "truthy (Some (JStr s)) = (s \<noteq> [])"
| "truthy (Some (JArr xs)) = True"
| "truthy (Some (JObj kvs)) = True"

text \<open>Decimal rendering of an integer, as \<open>Number.prototype.toString\<close> gives it.\<close>

fun show_nat :: "nat \<Rightarrow> string" where
  "show_nat n =
     (if n < 10 then [''0123456789'' ! n]
      else show_nat (n div 10) @ [''0123456789'' ! (n mod 10)])"

definition show_int :: "int \<Rightarrow> string" where
  "show_int i = (if i < 0 then CHR ''-'' # show_nat (nat (- i)) else show_nat (nat i))"

text \<open>\<open>Array.prototype.join\<close> on strings already rendered.\<close>

fun join_strings :: "string \<Rightarrow> string list \<Rightarrow> string" where
  "join_strings sep [] = []"
| "join_strings sep [x] = x"
| "join_strings sep (x # y # ys) = x @ sep @ join_strings sep (y # ys)"

text \<open>
  \<open>join\<close> renders a null element as the empty string and any other element by
  \<open>ToString\<close>; the first element whose rendering throws makes the join throw.
\<close>

fun join_items :: "json list \<Rightarrow> (error + string) list \<Rightarrow> error + string list" where
  "join_items (x # xs) (r # rs) =
     (case (if x = JNull then Inr [] else r) of
        Inl e \<Rightarrow> Inl e
      | Inr s \<Rightarrow> (case join_items xs rs of Inl e \<Rightarrow> Inl e | Inr ss \<Rightarrow> Inr (s # ss)))"
| "join_items _ _ = Inr []"

text \<open>
  \<open>ToString\<close> on a JSON value. An array joins its elements with a comma. A plain
  object renders as \<open>[object Object]\<close> through \<open>Object.prototype.toString\<close>; when it
  has an own property \<open>toString\<close>, that value is not callable, \<open>valueOf\<close> returns the
  object itself, and the conversion throws.
\<close>

primrec js_to_string :: "json \<Rightarrow> error + string" where
  "js_to_string JNull = Inr ''null''"
| "js_to_string (JBool b) = Inr (if b then ''true'' else ''false'')"
| "js_to_string (JNum n) = Inr (show_int n)"
| "js_to_string (JStr s) = Inr s"
| "js_to_string (JArr xs) =
     (case join_items xs (map js_to_string xs) of
        Inl e \<Rightarrow> Inl e
      | Inr ss \<Rightarrow> Inr (join_strings '','' ss))"
| "js_to_string (JObj kvs) =
     (if ''toString'' \<in> fst ` set kvs then Inl TypeError else Inr ''[object Object]'')"

text \<open>A template literal hole \<open>${v}\<close>: \<open>undefined\<close> renders as that word.\<close>

definition template :: "json option \<Rightarrow> error + string" where
  "template v = (case v of None \<Rightarrow> Inr ''undefined'' | Some x \<Rightarrow> js_to_string x)"


section \<open>String operations\<close>

text \<open>
  \<open>s.split(c)\<close> with a one-character separator: the segments between the
  separators, in order; a string without the separator is its own only segment.
\<close>

fun split_on :: "char \<Rightarrow> string \<Rightarrow> string list" where
  "split_on c [] = [[]]"
| "split_on c (x # xs) =
     (if x = c then [] # split_on c xs
      else (case split_on c xs of [] \<Rightarrow> [[x]] | y # ys \<Rightarrow> (x # y) # ys))"

text \<open>Array read \<open>a[i]\<close>: \<open>undefined\<close> beyond the end.\<close>

definition at_index :: "'a list \<Rightarrow> nat \<Rightarrow> 'a option" where
  "at_index xs i = (if i < length xs then Some (xs ! i) else None)"

text \<open>\<open>String.prototype.includes\<close>: the argument occurs as a contiguous substring.\<close>

fun starts_with :: "string \<Rightarrow> string \<Rightarrow> bool" where
  "starts_with s [] = True"
| "starts_with [] (y # ys) = False"
| "starts_with (x # xs) (y # ys) = (x = y \<and> starts_with xs ys)"

fun str_includes :: "string \<Rightarrow> string \<Rightarrow> bool" where
  "str_includes [] t = (t = [])"
| "str_includes (x # xs) t = (starts_with (x # xs) t \<or> str_includes xs t)"

text \<open>
  \<open>toLowerCase\<close> on code units below 256: the letters A to Z and the accented
  capitals \<open>0xC0\<close> to \<open>0xDE\<close> (without the multiplication sign \<open>0xD7\<close>) move up by 32.
\<close>

definition to_lower_char :: "char \<Rightarrow> char" where
  "to_lower_char c =
     (let n = (of_char c :: nat)
      in if (65 \<le> n \<and> n \<le> 90) \<or> (192 \<le> n \<and> n \<le> 214) \<or> (216 \<le> n \<and> n \<le> 222)
         then char_of (n + 32) else c)"

definition toLowerCase :: "string \<Rightarrow> string" where
  "toLowerCase s = map to_lower_char s"

subsection \<open>parseInt\<close>

text \<open>
  \<open>parseInt(s)\<close> without a radix: leading white space is skipped, one sign is
  read, a \<open>0x\<close> or \<open>0X\<close> prefix selects radix 16, and the longest run of digits
  of the radix is the value; whatever follows is ignored. With no digit the result is
  \<open>NaN\<close>. The result is a JavaScript number: the integer that the digits denote is
  rounded to the nearest double (a tie going to the even mantissa), and to an infinity
  from \<open>2 ^ 1024\<close> on.
\<close>

datatype parsed_number = NaN | PlusInfinity | MinusInfinity | Finite int

fun bit_length :: "nat \<Rightarrow> nat" where
  "bit_length n = (if n = 0 then 0 else Suc (bit_length (n div 2)))"

text \<open>
  The nearest double of a natural number: below \<open>2 ^ 53\<close> the number itself;
  otherwise the 53 leading bits, rounded by the bits that are cut off. \<open>None\<close> is
  the overflow to infinity.
\<close>

definition nearest_double :: "nat \<Rightarrow> nat option" where
  "nearest_double n =
     (if n < 2 ^ 53 then Some n
      else (let e = bit_length n - 53;
                q = n div 2 ^ e;
                r = n mod 2 ^ e;
                h = 2 ^ (e - 1);
                q' = (if h < r \<or> (r = h \<and> q mod 2 = 1) then q + 1 else q);
                v = q' * 2 ^ e
            in if v < 2 ^ 1024 then Some v else None))"

definition is_white_space :: "char \<Rightarrow> bool" where
  "is_white_space c = (of_char c \<in> {9, 10, 11, 12, 13, 32, 160 :: nat})"

definition digit_table :: "(char \<times> nat) list" where
  "digit_table =
     [(CHR ''0'', 0), (CHR ''1'', 1), (CHR ''2'', 2), (CHR ''3'', 3), (CHR ''4'', 4),
      (CHR ''5'', 5), (CHR ''6'', 6), (CHR ''7'', 7), (CHR ''8'', 8), (CHR ''9'', 9),
      (CHR ''a'', 10), (CHR ''b'', 11), (CHR ''c'', 12), (CHR ''d'', 13), (CHR ''e'', 14),
      (CHR ''f'', 15), (CHR ''A'', 10), (CHR ''B'', 11), (CHR ''C'', 12), (CHR ''D'', 13),
      (CHR ''E'', 14), (CHR ''F'', 15)]"

definition digit_value :: "nat \<Rightarrow> char \<Rightarrow> nat option" where
  "digit_value radix c =
     (case map_of digit_table c of
        None \<Rightarrow> None
      | Some d \<Rightarrow> if d < radix then Some d else None)"

definition strip_sign :: "string \<Rightarrow> bool \<times> string" where
  "strip_sign s =
     (case s of
        [] \<Rightarrow> (False, [])
      | c # r \<Rightarrow> if c = CHR ''-'' then (True, r) else if c = CHR ''+'' then (False, r)
                 else (False, s))"

definition strip_radix :: "string \<Rightarrow> nat \<times> string" where
  "strip_radix s =
     (if take 2 s = ''0x'' \<or> take 2 s = ''0X'' then (16, drop 2 s) else (10, s))"

definition digits_value :: "nat \<Rightarrow> string \<Rightarrow> nat" where
  "digits_value radix ds =
     foldl (\<lambda>a d. a * radix + d) 0 (List.map_filter (digit_value radix) ds)"

definition parseInt :: "string \<Rightarrow> parsed_number" where
  "parseInt s =
     (let (negative, s1) = strip_sign (dropWhile is_white_space s);
          (radix, s2) = strip_radix s1;
          ds = takeWhile (\<lambda>c. digit_value radix c \<noteq> None) s2
      in if ds = [] then NaN
         else (case nearest_double (digits_value radix ds) of
                 None \<Rightarrow> if negative then MinusInfinity else PlusInfinity
               | Some v \<Rightarrow> Finite ((if negative then - 1 else 1) * int v)))"

text \<open>
  Strict equality \<open>v === n\<close> of a property with the result of \<open>parseInt\<close>: true only
  for a number of the same value, and never for \<open>NaN\<close>. No stored value is infinite.
\<close>

definition strict_equals_number :: "json option \<Rightarrow> parsed_number \<Rightarrow> bool" where
  "strict_equals_number v n = (case n of Finite k \<Rightarrow> v = Some (JNum k) | _ \<Rightarrow> False)"

section \<open>The store and the HTTP vocabulary\<close>

text \<open>
  The module-level variables \<open>participants\<close> and \<open>participantIdCounter\<close>. The
  counter is an integer incremented without bound; the JavaScript number would stop
  growing at \<open>2 ^ 53\<close>.
\<close>

record store =
  participants :: "fields list"
  participantIdCounter :: int

definition initial_store :: store where
  "initial_store = \<lparr>participants = [], participantIdCounter = 1\<rparr>"

text \<open>
  What the handlers read from the runtime: \<open>new Date().toISOString()\<close>,
  \<open>Date.now()\<close>, \<open>process.uptime()\<close>, and the value \<open>Math.round(t / n)\<close> takes
  when the sum \<open>t\<close> has become a string by concatenation (see \<open>avg_traits\<close>).
\<close>

record env =
  iso_now :: string
  epoch_ms :: int
  uptime :: json
  round_text_quotient :: "string \<Rightarrow> nat \<Rightarrow> json"

text \<open>
  The methods for which the server registers routes; \<open>OTHER\<close> is any method without
  a route (PUT, PATCH and so on). HEAD requests, which the framework answers through
  the GET routes, are not modelled.
\<close>

datatype http_method = GET | POST | DELETE | OTHER

text \<open>
  A request after the middleware has parsed it: the path as its segments, the query
  parameter \<open>q\<close> (a string, or an array or object when the query string repeats or
  nests it), and the body as a field map (empty when there is none).
\<close>

record request =
  req_method :: http_method
  req_path :: "string list"
  query_q :: "json option"
  body :: fields

datatype payload = Json json | Text string | Default_page

record response =
  status :: nat
  headers :: "(string \<times> string) list"
  payload :: payload

definition json_response :: "nat \<Rightarrow> json \<Rightarrow> response" where
  "json_response st v = \<lparr>status = st, headers = [], payload = Json v\<rparr>"

text \<open>Reading one property of a response whose body is a JSON object.\<close>

definition body_field :: "response \<Rightarrow> string \<Rightarrow> json option" where
  "body_field r k = (case payload r of Json (JObj kvs) \<Rightarrow> map_of kvs k | _ \<Rightarrow> None)"

text \<open>
  A handler takes the runtime, the request and the path parameters, and returns the
  response it sends, or the exception it throws, with the store it leaves.
\<close>

type_synonym handler =
  "env \<Rightarrow> request \<Rightarrow> string list \<Rightarrow> store \<Rightarrow> (error + response) \<times> store"

text \<open>\<open>xs.filter(f)\<close> and \<open>xs.map(f)\<close> for a callback that may throw.\<close>

fun filter_throwing :: "('a \<Rightarrow> error + bool) \<Rightarrow> 'a list \<Rightarrow> error + 'a list" where
  "filter_throwing f [] = Inr []"
| "filter_throwing f (x # xs) =
     (case f x of
        Inl e \<Rightarrow> Inl e
      | Inr b \<Rightarrow> (case filter_throwing f xs of
                   Inl e \<Rightarrow> Inl e
                 | Inr ys \<Rightarrow> Inr (if b then x # ys else ys)))"

fun map_throwing :: "('a \<Rightarrow> error + 'b) \<Rightarrow> 'a list \<Rightarrow> error + 'b list" where
  "map_throwing f [] = Inr []"
| "map_throwing f (x # xs) =
     (case f x of
        Inl e \<Rightarrow> Inl e
      | Inr y \<Rightarrow> (case map_throwing f xs of Inl e \<Rightarrow> Inl e | Inr ys \<Rightarrow> Inr (y # ys)))"

section \<open>The handlers\<close>

subsection \<open>GET /api/participants\<close>

definition get_participants :: handler where
  "get_participants ev req ps s =
     (Inr (json_response 200 (JArr (map JObj (participants s)))), s)"

subsection \<open>GET /api/participants/:id\<close>

definition not_found :: response where
  "not_found = json_response 404 (JObj [(''error'', JStr ''Participant not found'')])"

text \<open>
  A path parameter \<open>req.params.x\<close> is a string when the route has it; a function
  that expects a string would read a missing one as the word \<open>undefined\<close>.
\<close>

definition param_text :: "string list \<Rightarrow> string" where
  "param_text ps = (case at_index ps 0 of None \<Rightarrow> ''undefined'' | Some x \<Rightarrow> x)"

definition find_participant :: "string \<Rightarrow> fields list \<Rightarrow> fields option" where
  "find_participant ident xs =
     find (\<lambda>p. strict_equals_number (get_field p ''id'') (parseInt ident)) xs"

definition get_participant_by_id :: handler where
  "get_participant_by_id ev req ps s =
     (case find_participant (param_text ps) (participants s) of
        Some participant \<Rightarrow> (Inr (json_response 200 (JObj participant)), s)
      | None \<Rightarrow> (Inr not_found, s))"

subsection \<open>POST /api/participants\<close>

text \<open>
  The object literal \<open>{id: c, ...body, timestamp: t}\<close> writes its properties from
  left to right: a later write to a key that exists replaces the value in place.
\<close>

primrec spread :: "fields \<Rightarrow> fields \<Rightarrow> fields" where
  "spread obj [] = obj"
| "spread obj (kv # kvs) = spread (AList.update (fst kv) (snd kv) obj) kvs"

definition new_participant :: "env \<Rightarrow> int \<Rightarrow> fields \<Rightarrow> fields" where
  "new_participant ev c b =
     AList.update ''timestamp'' (JStr (iso_now ev)) (spread [(''id'', JNum c)] b)"

definition post_participant :: handler where
  "post_participant ev req ps s =
     (let newParticipant = new_participant ev (participantIdCounter s) (body req)
      in (Inr (json_response 201 (JObj newParticipant)),
          \<lparr>participants = participants s @ [newParticipant],
           participantIdCounter = participantIdCounter s + 1\<rparr>))"


subsection \<open>GET /api/statistics\<close>

text \<open>
  \<open>p.congressionalOffice?.split('|')[0]\<close>: the optional chain stops at an absent
  or null field with \<open>undefined\<close>; a string gives its first segment; on any other
  JSON value \<open>split\<close> is not a function and the call throws.
\<close>

definition office_key :: "fields \<Rightarrow> error + string option" where
  "office_key p =
     (case get_field p ''congressionalOffice'' of
        None \<Rightarrow> Inr None
      | Some JNull \<Rightarrow> Inr None
      | Some (JStr s) \<Rightarrow> Inr (at_index (split_on CHR ''|'' s) 0)
      | Some _ \<Rightarrow> Inl TypeError)"

text \<open>\<open>[...new Set(keys)].length\<close>\<close>

definition unique_offices :: "fields list \<Rightarrow> error + nat" where
  "unique_offices xs =
     (case map_throwing office_key xs of
        Inl e \<Rightarrow> Inl e
      | Inr keys \<Rightarrow> Inr (length (remdups keys)))"

text \<open>
  A distribution is a plain object. Reading a key it does not own finds the members
  of \<open>Object.prototype\<close>: a function there is truthy, and adding 1 to it concatenates
  its source text with \<open>1\<close>, which is then stored under the key; \<open>__proto__\<close> is an
  accessor whose setter ignores a string, so nothing is stored. Every other key
  starts at 1 and counts up. The entries are kept in the order of their first write;
  the place of integer-like keys in the serialised object is not modelled.
\<close>

datatype tally = Count int | Garbled string

definition object_prototype_functions :: "string list" where
  "object_prototype_functions =
     [''constructor'', ''__defineGetter__'', ''__defineSetter__'', ''hasOwnProperty'',
      ''__lookupGetter__'', ''__lookupSetter__'', ''isPrototypeOf'',
      ''propertyIsEnumerable'', ''toString'', ''valueOf'', ''toLocaleString'']"

definition native_text :: "string \<Rightarrow> string" where
  "native_text k =
     ''function '' @ (if k = ''constructor'' then ''Object'' else k) @ ''() { [native code] }''"

definition bump :: "(string \<times> tally) list \<Rightarrow> string \<Rightarrow> (string \<times> tally) list" where
  "bump d k =
     (case map_of d k of
        Some (Count n) \<Rightarrow> AList.update k (Count (n + 1)) d
      | Some (Garbled t) \<Rightarrow> AList.update k (Garbled (t @ ''1'')) d
      | None \<Rightarrow>
          if k = ''__proto__'' then d
          else if k \<in> set object_prototype_functions
            then AList.update k (Garbled (native_text k @ ''1'')) d
          else AList.update k (Count 1) d)"

text \<open>The property key of \<open>d[p.field]\<close> is the field's \<open>ToString\<close>.\<close>

definition property_key :: "string \<Rightarrow> fields \<Rightarrow> error + string" where
  "property_key f p = template (get_field p f)"

definition distribution :: "string \<Rightarrow> fields list \<Rightarrow> error + (string \<times> tally) list" where
  "distribution f xs =
     (case map_throwing (property_key f) xs of
        Inl e \<Rightarrow> Inl e
      | Inr keys \<Rightarrow> Inr (foldl bump [] keys))"

definition tally_json :: "tally \<Rightarrow> json" where
  "tally_json t = (case t of Count n \<Rightarrow> JNum n | Garbled x \<Rightarrow> JStr x)"

definition distribution_json :: "(string \<times> tally) list \<Rightarrow> json" where
  "distribution_json d = JObj (map (\<lambda>kv. (fst kv, tally_json (snd kv))) d)"

text \<open>
  \<open>p.selectedTraits?.length\<close>: an array or a string has a length, an object has
  whatever its own \<open>length\<close> property holds, anything else has none.
\<close>

definition traits_length :: "fields \<Rightarrow> json option" where
  "traits_length p =
     (case get_field p ''selectedTraits'' of
        None \<Rightarrow> None
      | Some JNull \<Rightarrow> None
      | Some (JStr s) \<Rightarrow> Some (JNum (int (length s)))
      | Some (JArr xs) \<Rightarrow> Some (JNum (int (length xs)))
      | Some (JObj kvs) \<Rightarrow> map_of kvs ''length''
      | Some _ \<Rightarrow> None)"

text \<open>\<open>v || 0\<close>\<close>

definition or_zero :: "json option \<Rightarrow> json" where
  "or_zero v = (case v of None \<Rightarrow> JNum 0 | Some x \<Rightarrow> if truthy v then x else JNum 0)"

text \<open>
  The running sum of \<open>reduce\<close> is a number until a string, array or object is added
  to it; from then on \<open>+\<close> concatenates.
\<close>

datatype total = Number int | Concatenated string

definition js_add :: "total \<Rightarrow> json \<Rightarrow> error + total" where
  "js_add acc v =
     (case acc of
        Number a \<Rightarrow>
          (case v of
             JNum n \<Rightarrow> Inr (Number (a + n))
           | JBool b \<Rightarrow> Inr (Number (a + (if b then 1 else 0)))
           | JNull \<Rightarrow> Inr (Number a)
           | _ \<Rightarrow> (case js_to_string v of
                     Inl e \<Rightarrow> Inl e
                   | Inr t \<Rightarrow> Inr (Concatenated (show_int a @ t))))
      | Concatenated x \<Rightarrow>
          (case js_to_string v of
             Inl e \<Rightarrow> Inl e
           | Inr t \<Rightarrow> Inr (Concatenated (x @ t))))"

fun total_traits :: "total \<Rightarrow> fields list \<Rightarrow> error + total" where
  "total_traits acc [] = Inr acc"
| "total_traits acc (p # xs) =
     (case js_add acc (or_zero (traits_length p)) of
        Inl e \<Rightarrow> Inl e
      | Inr acc' \<Rightarrow> total_traits acc' xs)"

text \<open>\<open>Math.round\<close>: the nearest integer, a tie going up.\<close>

definition math_round :: "rat \<Rightarrow> int" where
  "math_round x = \<lfloor>x + 1 / 2\<rfloor>"

definition avg_traits :: "env \<Rightarrow> fields list \<Rightarrow> error + json" where
  "avg_traits ev xs =
     (if length xs > 0
      then (case total_traits (Number 0) xs of
              Inl e \<Rightarrow> Inl e
            | Inr (Number totalTraits) \<Rightarrow>
                Inr (JNum (math_round (of_int totalTraits / of_nat (length xs))))
            | Inr (Concatenated t) \<Rightarrow> Inr (round_text_quotient ev t (length xs)))
      else Inr (JNum 0))"

definition compute_statistics :: "env \<Rightarrow> fields list \<Rightarrow> error + fields" where
  "compute_statistics ev xs =
     (case unique_offices xs of
        Inl e \<Rightarrow> Inl e
      | Inr u \<Rightarrow>
     (case distribution ''audienceProfile'' xs of
        Inl e \<Rightarrow> Inl e
      | Inr pd \<Rightarrow>
     (case distribution ''primaryConcern'' xs of
        Inl e \<Rightarrow> Inl e
      | Inr cd \<Rightarrow>
     (case avg_traits ev xs of
        Inl e \<Rightarrow> Inl e
      | Inr avg \<Rightarrow>
          Inr [(''totalParticipants'', JNum (int (length xs))),
               (''uniqueOffices'', JNum (int u)),
               (''profileDistribution'', distribution_json pd),
               (''concernDistribution'', distribution_json cd),
               (''avgTraitsSelected'', avg),
               (''completionRate'', JNum 100),
               (''lastUpdated'', JStr (iso_now ev))]))))"

definition get_statistics :: handler where
  "get_statistics ev req ps s =
     (case compute_statistics ev (participants s) of
        Inl e \<Rightarrow> (Inl e, s)
      | Inr stats \<Rightarrow> (Inr (json_response 200 (JObj stats)), s))"


subsection \<open>GET /api/participants/office/:office\<close>

text \<open>
  \<open>p.congressionalOffice?.includes(office)\<close>: \<open>undefined\<close> (falsy) for an absent
  or null field, the substring test on a string, the membership test on an array, and
  a thrown \<open>TypeError\<close> on a value without an \<open>includes\<close> method.
\<close>

definition office_includes :: "string \<Rightarrow> fields \<Rightarrow> error + bool" where
  "office_includes office p =
     (case get_field p ''congressionalOffice'' of
        None \<Rightarrow> Inr False
      | Some JNull \<Rightarrow> Inr False
      | Some (JStr s) \<Rightarrow> Inr (str_includes s office)
      | Some (JArr xs) \<Rightarrow> Inr (JStr office \<in> set xs)
      | Some _ \<Rightarrow> Inl TypeError)"

definition get_by_office :: handler where
  "get_by_office ev req ps s =
     (case filter_throwing (office_includes (param_text ps)) (participants s) of
        Inl e \<Rightarrow> (Inl e, s)
      | Inr officeParticipants \<Rightarrow>
          (Inr (json_response 200 (JArr (map JObj officeParticipants))), s))"

subsection \<open>GET /api/participants/profile/:profile\<close>

definition get_by_profile :: handler where
  "get_by_profile ev req ps s =
     (let profileParticipants =
            filter (\<lambda>p. get_field p ''audienceProfile'' = map_option JStr (at_index ps 0))
              (participants s)
      in (Inr (json_response 200 (JArr (map JObj profileParticipants))), s))"

subsection \<open>GET /api/participants/search\<close>

text \<open>\<open>q.toLowerCase()\<close> exists on a string only.\<close>

definition query_lower :: "json option \<Rightarrow> error + string" where
  "query_lower q = (case q of Some (JStr t) \<Rightarrow> Inr (toLowerCase t) | _ \<Rightarrow> Inl TypeError)"

definition search_string :: "fields \<Rightarrow> error + string" where
  "search_string p =
     (case template (get_field p ''name'') of
        Inl e \<Rightarrow> Inl e
      | Inr n \<Rightarrow>
     (case template (get_field p ''congressionalOffice'') of
        Inl e \<Rightarrow> Inl e
      | Inr c \<Rightarrow>
     (case template (get_field p ''audienceProfile'') of
        Inl e \<Rightarrow> Inl e
      | Inr a \<Rightarrow> Inr (toLowerCase (n @ '' '' @ c @ '' '' @ a)))))"

definition search_matches :: "json option \<Rightarrow> fields \<Rightarrow> error + bool" where
  "search_matches q p =
     (case search_string p of
        Inl e \<Rightarrow> Inl e
      | Inr searchString \<Rightarrow>
          (case query_lower q of
             Inl e \<Rightarrow> Inl e
           | Inr ql \<Rightarrow> Inr (str_includes searchString ql)))"

definition search_participants :: handler where
  "search_participants ev req ps s =
     (if \<not> truthy (query_q req)
      then (Inr (json_response 200 (JArr (map JObj (participants s)))), s)
      else (case filter_throwing (search_matches (query_q req)) (participants s) of
              Inl e \<Rightarrow> (Inl e, s)
            | Inr searchResults \<Rightarrow>
                (Inr (json_response 200 (JArr (map JObj searchResults))), s)))"

subsection \<open>DELETE /api/participants\<close>

definition delete_participants :: handler where
  "delete_participants ev req ps s =
     (Inr (json_response 200 (JObj [(''message'', JStr ''All participants deleted'')])),
      \<lparr>participants = [], participantIdCounter = 1\<rparr>)"

subsection \<open>GET /api/export/csv\<close>

text \<open>
  \<open>p.congressionalOffice?.split('|')[1] || 'Unknown'\<close>: the second segment of a
  string, and \<open>Unknown\<close> when that segment is missing or empty or the field is absent
  or null.
\<close>

definition csv_office :: "fields \<Rightarrow> error + string" where
  "csv_office p =
     (case get_field p ''congressionalOffice'' of
        None \<Rightarrow> Inr ''Unknown''
      | Some JNull \<Rightarrow> Inr ''Unknown''
      | Some (JStr s) \<Rightarrow>
          (case at_index (split_on CHR ''|'' s) 1 of
             None \<Rightarrow> Inr ''Unknown''
           | Some seg \<Rightarrow> Inr (if seg = [] then ''Unknown'' else seg))
      | Some _ \<Rightarrow> Inl TypeError)"

text \<open>
  \<open>(v || []).join(sep)\<close>: a falsy value joins to the empty string, an array joins
  its elements, and any other truthy value has no \<open>join\<close> method.
\<close>

definition joined :: "string \<Rightarrow> json option \<Rightarrow> error + string" where
  "joined sep v =
     (if \<not> truthy v then Inr []
      else (case v of
              Some (JArr xs) \<Rightarrow>
                (case join_items xs (map js_to_string xs) of
                   Inl e \<Rightarrow> Inl e
                 | Inr ss \<Rightarrow> Inr (join_strings sep ss))
            | _ \<Rightarrow> Inl TypeError))"

definition csv_header :: string where
  "csv_header =
     ''ID,Name,Congressional Office,Profile,Primary Concern,Adjectives,Priorities,Selected Traits,Timestamp''
       @ [CHR 0x0A]"

definition csv_cells :: "fields \<Rightarrow> (error + string) list" where
  "csv_cells p =
     [template (get_field p ''id''),
      template (get_field p ''name''),
      csv_office p,
      template (get_field p ''audienceProfile''),
      template (get_field p ''primaryConcern''),
      joined '', '' (get_field p ''adjectives''),
      joined ''; '' (get_field p ''priorities''),
      joined '', '' (get_field p ''selectedTraits''),
      template (get_field p ''timestamp'')]"

definition quoted :: "string \<Rightarrow> string" where
  "quoted x = [CHR 0x22] @ x @ [CHR 0x22]"

definition csv_row :: "fields \<Rightarrow> error + string" where
  "csv_row p =
     (case map_throwing id (csv_cells p) of
        Inl e \<Rightarrow> Inl e
      | Inr cells \<Rightarrow>
          (case cells of
             ident # rest \<Rightarrow> Inr (ident @ '','' @ join_strings '','' (map quoted rest) @ [CHR 0x0A])
           | [] \<Rightarrow> Inr []))"

definition export_csv :: handler where
  "export_csv ev req ps s =
     (case map_throwing csv_row (participants s) of
        Inl e \<Rightarrow> (Inl e, s)
      | Inr rows \<Rightarrow>
          (Inr \<lparr>status = 200,
                headers =
                  [(''Content-Type'', ''text/csv''),
                   (''Content-Disposition'',
                    ''attachment; filename=participants-'' @ show_int (epoch_ms ev) @ ''.csv'')],
                payload = Text (csv_header @ concat rows)\<rparr>,
           s))"

subsection \<open>GET /api/health\<close>

definition health :: handler where
  "health ev req ps s =
     (Inr (json_response 200
        (JObj [(''status'', JStr ''healthy''),
               (''participantCount'', JNum (int (length (participants s)))),
               (''uptime'', uptime ev)])),
      s)"

section \<open>Routing\<close>

text \<open>
  A route pattern is the list of its path segments; a segment that starts with a colon
  is a parameter and matches one non-empty segment. The router tries the routes in the
  order in which the server registers them and runs the first that matches; no handler
  passes the request on. The middleware registered before the routes (CORS, the body
  parsers, the static files of the front end) is taken to pass every API request on;
  a path is matched segment by segment as it is written.
\<close>

definition is_parameter :: "string \<Rightarrow> bool" where
  "is_parameter seg = (case seg of [] \<Rightarrow> False | c # _ \<Rightarrow> c = CHR '':'')"

fun match_route :: "string list \<Rightarrow> string list \<Rightarrow> string list option" where
  "match_route [] [] = Some []"
| "match_route (p # ps) (x # xs) =
     (if is_parameter p
      then (if x = [] then None else map_option ((#) x) (match_route ps xs))
      else (if p = x then match_route ps xs else None))"
| "match_route _ _ = None"

definition routes :: "(http_method \<times> string list \<times> handler) list" where
  "routes =
     [(GET, [''api'', ''participants''], get_participants),
      (GET, [''api'', ''participants'', '':id''], get_participant_by_id),
      (POST, [''api'', ''participants''], post_participant),
      (GET, [''api'', ''statistics''], get_statistics),
      (GET, [''api'', ''participants'', ''office'', '':office''], get_by_office),
      (GET, [''api'', ''participants'', ''profile'', '':profile''], get_by_profile),
      (GET, [''api'', ''participants'', ''search''], search_participants),
      (DELETE, [''api'', ''participants''], delete_participants),
      (GET, [''api'', ''export'', ''csv''], export_csv),
      (GET, [''api'', ''health''], health)]"

fun first_match ::
  "(http_method \<times> string list \<times> handler) list \<Rightarrow> request \<Rightarrow> (handler \<times> string list) option"
where
  "first_match [] req = None"
| "first_match ((m, pat, h) # rs) req =
     (if m = req_method req
      then (case match_route pat (req_path req) of
              Some ps \<Rightarrow> Some (h, ps)
            | None \<Rightarrow> first_match rs req)
      else first_match rs req)"

text \<open>The error-handling middleware answers every thrown exception.\<close>

definition server_error :: response where
  "server_error = json_response 500 (JObj [(''error'', JStr ''Something went wrong!'')])"

text \<open>A request that no route matches gets the framework's own 404 page.\<close>

definition no_route :: response where
  "no_route = \<lparr>status = 404, headers = [], payload = Default_page\<rparr>"

definition dispatch :: "env \<Rightarrow> request \<Rightarrow> store \<Rightarrow> response \<times> store" where
  "dispatch ev req s =
     (case first_match routes req of
        None \<Rightarrow> (no_route, s)
      | Some (h, ps) \<Rightarrow>
          (case h ev req ps s of
             (Inl e, s') \<Rightarrow> (server_error, s')
           | (Inr r, s') \<Rightarrow> (r, s')))"

text \<open>
  A run of the server: the requests are handled one after the other, each with the
  clock readings of its moment.
\<close>

fun serve :: "(env \<times> request) list \<Rightarrow> store \<Rightarrow> response list \<times> store" where
  "serve [] s = ([], s)"
| "serve ((ev, req) # reqs) s =
     (let (r, s') = dispatch ev req s; (rs, s'') = serve reqs s' in (r # rs, s''))"

definition create_request :: "fields \<Rightarrow> request" where
  "create_request b =
     \<lparr>req_method = POST, req_path = [''api'', ''participants''], query_q = None, body = b\<rparr>"

definition read_request :: "string list \<Rightarrow> json option \<Rightarrow> request" where
  "read_request segs q = \<lparr>req_method = GET, req_path = segs, query_q = q, body = []\<rparr>"

definition clear_request :: request where
  "clear_request =
     \<lparr>req_method = DELETE, req_path = [''api'', ''participants''], query_q = None, body = []\<rparr>"

section \<open>The data model of the specification\<close>

text \<open>
  The specification types the fields the statistics read: \<open>congressionalOffice\<close>,
  \<open>audienceProfile\<close> and \<open>primaryConcern\<close> are text, \<open>selectedTraits\<close> is a sequence,
  and each may be missing (absent, or sent as null). A record may carry any other
  field with any value.
\<close>

definition text_or_missing :: "json option \<Rightarrow> bool" where
  "text_or_missing v =
     (case v of None \<Rightarrow> True | Some JNull \<Rightarrow> True | Some (JStr s) \<Rightarrow> True | Some _ \<Rightarrow> False)"

definition sequence_or_missing :: "json option \<Rightarrow> bool" where
  "sequence_or_missing v =
     (case v of None \<Rightarrow> True | Some JNull \<Rightarrow> True | Some (JArr xs) \<Rightarrow> True | Some _ \<Rightarrow> False)"

definition conforms :: "fields \<Rightarrow> bool" where
  "conforms p =
     (text_or_missing (get_field p ''congressionalOffice'') \<and>
      text_or_missing (get_field p ''audienceProfile'') \<and>
      text_or_missing (get_field p ''primaryConcern'') \<and>
      sequence_or_missing (get_field p ''selectedTraits''))"

text \<open>
  The office key in the words of the specification: the text before the first bar,
  the whole text when there is no bar, and one undefined value for a missing field.
\<close>

definition spec_office_key :: "fields \<Rightarrow> string option" where
  "spec_office_key p =
     (case get_field p ''congressionalOffice'' of
        Some (JStr s) \<Rightarrow> Some (takeWhile (\<lambda>c. c \<noteq> CHR ''|'') s)
      | _ \<Rightarrow> None)"

text \<open>The length of \<open>selectedTraits\<close> in the words of the specification.\<close>

definition spec_traits_count :: "fields \<Rightarrow> nat" where
  "spec_traits_count p =
     (case get_field p ''selectedTraits'' of Some (JArr xs) \<Rightarrow> length xs | _ \<Rightarrow> 0)"

text \<open>A field that is absent or holds the literal string \<open>undefined\<close>.\<close>

definition absent_or_undefined_text :: "string \<Rightarrow> fields \<Rightarrow> bool" where
  "absent_or_undefined_text f p =
     (get_field p f = None \<or> get_field p f = Some (JStr ''undefined''))"


text \<open>
  The length that the average takes from a \<open>selectedTraits\<close> value that is not a
  JSON object: the number of elements of an array, the number of code units of a
  string, and 0 for a missing value, a number or a boolean.
\<close>

definition not_an_object :: "json option \<Rightarrow> bool" where
  "not_an_object v = (case v of Some (JObj kvs) \<Rightarrow> False | _ \<Rightarrow> True)"

definition traits_count :: "fields \<Rightarrow> nat" where
  "traits_count p =
     (case get_field p ''selectedTraits'' of
        Some (JArr xs) \<Rightarrow> length xs
      | Some (JStr t) \<Rightarrow> length t
      | _ \<Rightarrow> 0)"


text \<open>The property key of a field that is text or missing.\<close>

definition text_key :: "json option \<Rightarrow> string" where
  "text_key v = (case v of Some (JStr s) \<Rightarrow> s | Some JNull \<Rightarrow> ''null'' | _ \<Rightarrow> ''undefined'')"

text \<open>
  The entry a distribution is said to hold under the key \<open>undefined\<close>: the number of
  such records, and no entry when there is none.
\<close>

definition undefined_bucket :: "string \<Rightarrow> fields list \<Rightarrow> json option" where
  "undefined_bucket f xs =
     (let n = length (filter (absent_or_undefined_text f) xs)
      in if n = 0 then None else Some (JNum (int n)))"

section \<open>Sample values\<close>

definition sample_env :: env where
  "sample_env =
     \<lparr>iso_now = ''2024-05-01T12:00:00.000Z'', epoch_ms = 1714564800000, uptime = JNum 42,
      round_text_quotient = (\<lambda>t n. JNull)\<rparr>"

definition sample_store :: store where
  "sample_store =
     \<lparr>participants =
        [[(''id'', JNum 1), (''name'', JStr ''A''), (''audienceProfile'', JStr ''p1''),
          (''primaryConcern'', JStr ''c1''), (''selectedTraits'', JArr [JStr ''x'', JStr ''y'']),
          (''timestamp'', JStr ''2024-05-01T12:00:00.000Z'')],
         [(''id'', JNum 2), (''name'', JStr ''B''), (''audienceProfile'', JStr ''p1''),
          (''primaryConcern'', JStr ''c2''), (''selectedTraits'', JArr [JStr ''x'']),
          (''timestamp'', JStr ''2024-05-01T12:00:00.000Z'')]],
      participantIdCounter = 3\<rparr>"

section \<open>Routing lemmas\<close>

lemma snd_dispatch:
  "snd (dispatch ev req s) =
     (case first_match routes req of None \<Rightarrow> s | Some (h, ps) \<Rightarrow> snd (h ev req ps s))"
  by (auto simp: dispatch_def split: option.splits prod.splits sum.splits)

lemma first_match_in_table:
  "first_match rs req = Some (h, ps) \<Longrightarrow> (req_method req, h) \<in> (\<lambda>(m, pat, h). (m, h)) ` set rs"
  by (induction rs req rule: first_match.induct) (auto split: if_splits option.splits)

lemma dispatch_create:
  "dispatch ev (create_request b) s =
     (json_response 201 (JObj (new_participant ev (participantIdCounter s) b)),
      \<lparr>participants = participants s @ [new_participant ev (participantIdCounter s) b],
       participantIdCounter = participantIdCounter s + 1\<rparr>)"
  by (simp add: dispatch_def routes_def create_request_def post_participant_def Let_def)

lemma dispatch_clear:
  "dispatch ev clear_request s =
     (json_response 200 (JObj [(''message'', JStr ''All participants deleted'')]), initial_store)"
  by (simp add: dispatch_def routes_def clear_request_def delete_participants_def initial_store_def)

lemma dispatch_list:
  "dispatch ev (read_request [''api'', ''participants''] q) s =
     (json_response 200 (JArr (map JObj (participants s))), s)"
  by (simp add: dispatch_def routes_def read_request_def get_participants_def)

lemma dispatch_by_id:
  assumes "ident \<noteq> []"
  shows "dispatch ev (read_request [''api'', ''participants'', ident] q) s =
     (case find_participant ident (participants s) of
        Some p \<Rightarrow> json_response 200 (JObj p)
      | None \<Rightarrow> not_found, s)"
  using assms
  by (simp add: dispatch_def routes_def read_request_def is_parameter_def
      get_participant_by_id_def param_text_def at_index_def split: option.splits)

section \<open>Callbacks that throw\<close>

lemma only_error: "(e :: error) = TypeError"
  by (cases e) simp

lemma map_throwing_total:
  "\<forall>x \<in> set xs. f x = Inr (g x) \<Longrightarrow> map_throwing f xs = Inr (map g xs)"
  by (induction xs) auto

lemma map_throwing_throws:
  "\<exists>x \<in> set xs. f x = Inl TypeError \<Longrightarrow> map_throwing f xs = Inl TypeError"
proof (induction xs)
  case Nil
  then show ?case by simp
next
  case (Cons a xs)
  show ?case
  proof (cases "f a")
    case (Inl e)
    then show ?thesis by (simp add: only_error)
  next
    case (Inr y)
    with Cons.prems have "\<exists>x \<in> set xs. f x = Inl TypeError" by auto
    with Cons.IH Inr show ?thesis by simp
  qed
qed



section \<open>Creating participants\<close>

lemma spread_lookup:
  "map_of (spread obj b) k = (case map_of (rev b) k of Some v \<Rightarrow> Some v | None \<Rightarrow> map_of obj k)"
  by (induction b arbitrary: obj) (auto simp: update_conv' split: option.splits)

lemma new_participant_timestamp:
  "get_field (new_participant ev c b) ''timestamp'' = Some (JStr (iso_now ev))"
  by (simp add: new_participant_def get_field_def update_conv')

lemma new_participant_id:
  "get_field (new_participant ev c b) ''id'' =
     (case map_of (rev b) ''id'' of Some v \<Rightarrow> Some v | None \<Rightarrow> Some (JNum c))"
  by (simp add: new_participant_def get_field_def update_conv' spread_lookup
      split: option.splits)

lemma new_participant_id_fresh:
  "''id'' \<notin> fst ` set b \<Longrightarrow> get_field (new_participant ev c b) ''id'' = Some (JNum c)"
  by (simp add: new_participant_id map_of_eq_None_iff[THEN iffD2])

text \<open>
  C1. A create request stores the counter value as id and the creation time as
  timestamp even when the client sends its own \<open>id\<close> or \<open>timestamp\<close>. The timestamp
  is the store's (\<open>new_participant_timestamp\<close>), but the id is not: on the initial
  store, whose counter is 1, a body with \<open>id\<close> 99 is stored and returned with id 99.
\<close>

theorem create_keeps_client_id:
  "dispatch ev (create_request [(''id'', JNum 99), (''timestamp'', JStr ''then'')]) initial_store
     = (json_response 201 (JObj [(''id'', JNum 99), (''timestamp'', JStr (iso_now ev))]),
        \<lparr>participants = [[(''id'', JNum 99), (''timestamp'', JStr (iso_now ev))]],
         participantIdCounter = 2\<rparr>)"
  by (simp add: dispatch_create new_participant_def initial_store_def)

text \<open>
  C3. N create requests from the initial store get the ids 1 to N in order, and no id
  is used twice. Two creates, the second with a body that carries \<open>id\<close> 1, leave two
  records with id 1.
\<close>

theorem created_ids_repeat:
  "map (\<lambda>p. get_field p ''id'')
     (participants (snd (serve [(ev, create_request []), (ev', create_request [(''id'', JNum 1)])]
        initial_store)))
   = [Some (JNum 1), Some (JNum 1)]"
  by (simp add: dispatch_create new_participant_def initial_store_def get_field_def)

text \<open>
  What does hold for the ids: bodies without an \<open>id\<close> key get the counter values,
  which run from the counter of the starting store upwards.
\<close>

lemma snd_serve_Cons:
  "snd (serve ((ev, req) # reqs) s) = snd (serve reqs (snd (dispatch ev req s)))"
  by (simp split: prod.splits)

lemma serve_creates_counter:
  "participantIdCounter (snd (serve (map (\<lambda>(ev, b). (ev, create_request b)) cs) s))
     = participantIdCounter s + int (length cs)"
  by (induction cs arbitrary: s) (auto simp: snd_serve_Cons dispatch_create simp del: serve.simps(2))

lemma serve_creates_ids:
  assumes "\<forall>(ev, b) \<in> set cs. ''id'' \<notin> fst ` set b"
  shows "map (\<lambda>p. get_field p ''id'')
           (participants (snd (serve (map (\<lambda>(ev, b). (ev, create_request b)) cs) s)))
         = map (\<lambda>p. get_field p ''id'') (participants s)
           @ map (\<lambda>i. Some (JNum (participantIdCounter s + int i))) [0..<length cs]"
  using assms
proof (induction cs arbitrary: s)
  case Nil
  then show ?case by simp
next
  case (Cons c cs)
  obtain ev b where c: "c = (ev, b)" by (cases c)
  let ?s' = "snd (dispatch ev (create_request b) s)"
  have fresh: "''id'' \<notin> fst ` set b" using Cons.prems c by auto
  have ih: "map (\<lambda>p. get_field p ''id'')
           (participants (snd (serve (map (\<lambda>(ev, b). (ev, create_request b)) cs) ?s')))
         = map (\<lambda>p. get_field p ''id'') (participants ?s')
           @ map (\<lambda>i. Some (JNum (participantIdCounter ?s' + int i))) [0..<length cs]"
    using Cons.prems by (intro Cons.IH) auto
  have shift: "map (\<lambda>i. Some (JNum (participantIdCounter s + int i))) [0..<Suc (length cs)]
      = Some (JNum (participantIdCounter s))
        # map (\<lambda>i. Some (JNum (participantIdCounter s + 1 + int i))) [0..<length cs]"
    by (simp add: map_upt_Suc add.assoc del: upt_Suc)
  show ?case
    using ih fresh
    by (simp add: c shift snd_serve_Cons dispatch_create new_participant_id_fresh
        del: serve.simps(2) upt_Suc)
qed

section \<open>Reading one participant\<close>

lemma parseInt_search: "parseInt ''search'' = NaN"
  by (simp add: parseInt_def strip_sign_def strip_radix_def is_white_space_def
      digit_value_def digit_table_def)

lemma find_never:
  "\<forall>k. n \<noteq> Finite k \<Longrightarrow> find (\<lambda>p. strict_equals_number (g p) n) xs = None"
  by (induction xs) (auto simp: strict_equals_number_def split: parsed_number.splits)

lemma find_first:
  "P p \<Longrightarrow> \<forall>x \<in> set before. \<not> P x \<Longrightarrow> find P (before @ p # after) = Some p"
  by (induction before) auto

lemma parseInt_rounds:
  "parseInt ''9007199254740993'' = Finite 9007199254740992"
  by (simp add: parseInt_def strip_sign_def strip_radix_def is_white_space_def
      digit_value_def digit_table_def digits_value_def nearest_double_def Let_def)

text \<open>
  C7. The lookup by id answers 404 for every non-numeric id parameter. The parameter
  \<open>2x\<close> is not numeric, yet it is read as 2 and the record with id 2 is returned with
  status 200.
\<close>

theorem get_by_id_counterexample:
  "dispatch sample_env (read_request [''api'', ''participants'', ''2x''] None) sample_store
     = (\<lparr>status = 200, headers = [],
         payload = Json (JObj
           [(''id'', JNum 2), (''name'', JStr ''B''), (''audienceProfile'', JStr ''p1''),
            (''primaryConcern'', JStr ''c2''), (''selectedTraits'', JArr [JStr ''x'']),
            (''timestamp'', JStr ''2024-05-01T12:00:00.000Z'')])\<rparr>,
        sample_store)"
  by (simp add: dispatch_by_id find_participant_def strict_equals_number_def get_field_def
      sample_store_def json_response_def parseInt_def strip_sign_def strip_radix_def
      is_white_space_def digit_value_def digit_table_def digits_value_def nearest_double_def)

text \<open>
  C7 as amended. For every store and every id parameter, the lookup leaves the store
  unchanged. The parameter is read by \<open>parseInt\<close>: leading white space, a sign, a
  \<open>0x\<close> prefix and then the longest run of digits, rounded to a double. When there
  is no digit to read (\<open>NaN\<close>), or no record has the number read as id, the answer
  is 404 with the body \<open>{"error": "Participant not found"}\<close>; otherwise it is 200 with
  the first record whose id is the number. A run of digits so long that it is read as
  an infinity is left aside.
\<close>

theorem get_by_id_answers:
  assumes "ident \<noteq> []"
  shows "snd (dispatch ev (read_request [''api'', ''participants'', ident] q) s) = s \<and>
    (parseInt ident = NaN \<longrightarrow>
       fst (dispatch ev (read_request [''api'', ''participants'', ident] q) s)
         = \<lparr>status = 404, headers = [],
            payload = Json (JObj [(''error'', JStr ''Participant not found'')])\<rparr>) \<and>
    (\<forall>k. parseInt ident = Finite k \<and>
         (\<forall>p \<in> set (participants s). get_field p ''id'' \<noteq> Some (JNum k)) \<longrightarrow>
       fst (dispatch ev (read_request [''api'', ''participants'', ident] q) s)
         = \<lparr>status = 404, headers = [],
            payload = Json (JObj [(''error'', JStr ''Participant not found'')])\<rparr>) \<and>
    (\<forall>k before p after.
       parseInt ident = Finite k \<and> participants s = before @ p # after \<and>
       get_field p ''id'' = Some (JNum k) \<and>
       (\<forall>p' \<in> set before. get_field p' ''id'' \<noteq> Some (JNum k)) \<longrightarrow>
       fst (dispatch ev (read_request [''api'', ''participants'', ident] q) s)
         = \<lparr>status = 200, headers = [], payload = Json (JObj p)\<rparr>)"
proof (intro conjI impI allI)
  show "snd (dispatch ev (read_request [''api'', ''participants'', ident] q) s) = s"
    using assms by (simp add: dispatch_by_id)
next
  assume "parseInt ident = NaN"
  then show "fst (dispatch ev (read_request [''api'', ''participants'', ident] q) s)
         = \<lparr>status = 404, headers = [],
            payload = Json (JObj [(''error'', JStr ''Participant not found'')])\<rparr>"
    using assms
    by (simp add: dispatch_by_id find_participant_def find_never not_found_def json_response_def)
next
  fix k
  assume none: "parseInt ident = Finite k \<and>
         (\<forall>p \<in> set (participants s). get_field p ''id'' \<noteq> Some (JNum k))"
  have "find_participant ident (participants s) = None"
    unfolding find_participant_def find_None_iff
    using none by (simp add: strict_equals_number_def)
  then show "fst (dispatch ev (read_request [''api'', ''participants'', ident] q) s)
         = \<lparr>status = 404, headers = [],
            payload = Json (JObj [(''error'', JStr ''Participant not found'')])\<rparr>"
    using assms by (simp add: dispatch_by_id not_found_def json_response_def)
next
  fix k before p after
  assume a: "parseInt ident = Finite k \<and> participants s = before @ p # after \<and>
       get_field p ''id'' = Some (JNum k) \<and>
       (\<forall>p' \<in> set before. get_field p' ''id'' \<noteq> Some (JNum k))"
  then have "find (\<lambda>x. get_field x ''id'' = Some (JNum k)) (before @ p # after) = Some p"
    by (intro find_first) auto
  with a show "fst (dispatch ev (read_request [''api'', ''participants'', ident] q) s)
         = \<lparr>status = 200, headers = [], payload = Json (JObj p)\<rparr>"
    using assms
    by (simp add: dispatch_by_id find_participant_def strict_equals_number_def json_response_def)
qed

theorem get_by_id_answers_witness:
  "''3'' \<noteq> [] \<and> parseInt ''3'' = Finite 3 \<and>
   dispatch sample_env (read_request [''api'', ''participants'', ''3''] None) sample_store
     = (\<lparr>status = 404, headers = [],
         payload = Json (JObj [(''error'', JStr ''Participant not found'')])\<rparr>, sample_store) \<and>
   ''abc'' \<noteq> [] \<and> parseInt ''abc'' = NaN \<and>
   dispatch sample_env (read_request [''api'', ''participants'', ''abc''] None) sample_store
     = (\<lparr>status = 404, headers = [],
         payload = Json (JObj [(''error'', JStr ''Participant not found'')])\<rparr>, sample_store) \<and>
   '' 0x2'' \<noteq> [] \<and> parseInt '' 0x2'' = Finite 2 \<and>
   dispatch sample_env (read_request [''api'', ''participants'', '' 0x2''] None) sample_store
     = (\<lparr>status = 200, headers = [], payload = Json (JObj (participants sample_store ! 1))\<rparr>,
        sample_store)"
proof -
  have n1: "'' 0x2'' \<noteq> []" and n2: "''abc'' \<noteq> []" and n3: "''3'' \<noteq> []" by simp_all
  have p1: "parseInt '' 0x2'' = Finite 2"
    by (simp add: parseInt_def strip_sign_def strip_radix_def is_white_space_def
        digit_value_def digit_table_def digits_value_def nearest_double_def)
  have p2: "parseInt ''abc'' = NaN"
    by (simp add: parseInt_def strip_sign_def strip_radix_def is_white_space_def
        digit_value_def digit_table_def)
  have p3: "parseInt ''3'' = Finite 3"
    by (simp add: parseInt_def strip_sign_def strip_radix_def is_white_space_def
        digit_value_def digit_table_def digits_value_def nearest_double_def)
  note found = get_by_id_answers [OF n1, of sample_env None sample_store]
  note unparsed = get_by_id_answers [OF n2, of sample_env None sample_store]
  note missing = get_by_id_answers [OF n3, of sample_env None sample_store]
  have shape: "participants sample_store
      = [participants sample_store ! 0] @ participants sample_store ! 1 # []"
    by (simp add: sample_store_def)
  have second: "get_field (participants sample_store ! 1) ''id'' = Some (JNum 2)"
    by (simp add: sample_store_def get_field_def)
  have earlier: "\<forall>p' \<in> set [participants sample_store ! 0]. get_field p' ''id'' \<noteq> Some (JNum 2)"
    by (simp add: sample_store_def get_field_def)
  have no3: "\<forall>p \<in> set (participants sample_store). get_field p ''id'' \<noteq> Some (JNum 3)"
    by (simp add: sample_store_def get_field_def)
  from found p1 shape second earlier
  have "fst (dispatch sample_env (read_request [''api'', ''participants'', '' 0x2''] None)
          sample_store) = \<lparr>status = 200, headers = [],
            payload = Json (JObj (participants sample_store ! 1))\<rparr>"
    by blast
  moreover from found
  have "snd (dispatch sample_env (read_request [''api'', ''participants'', '' 0x2''] None)
          sample_store) = sample_store"
    by blast
  moreover from unparsed p2
  have "fst (dispatch sample_env (read_request [''api'', ''participants'', ''abc''] None)
          sample_store) = \<lparr>status = 404, headers = [],
         payload = Json (JObj [(''error'', JStr ''Participant not found'')])\<rparr>"
    by simp
  moreover from unparsed
  have "snd (dispatch sample_env (read_request [''api'', ''participants'', ''abc''] None)
          sample_store) = sample_store"
    by blast
  moreover from missing p3 no3
  have "fst (dispatch sample_env (read_request [''api'', ''participants'', ''3''] None)
          sample_store) = \<lparr>status = 404, headers = [],
         payload = Json (JObj [(''error'', JStr ''Participant not found'')])\<rparr>"
    by blast
  moreover from missing
  have "snd (dispatch sample_env (read_request [''api'', ''participants'', ''3''] None)
          sample_store) = sample_store"
    by blast
  ultimately show ?thesis using n1 n2 n3 p1 p2 p3 by (simp add: prod_eq_iff)
qed

text \<open>
  An id beyond \<open>2 ^ 53\<close> is looked up as the double it rounds to.
\<close>

lemma large_id_is_rounded:
  "fst (dispatch ev (read_request [''api'', ''participants'', ''9007199254740993''] q)
          \<lparr>participants = [[(''id'', JNum 9007199254740992)]], participantIdCounter = 2\<rparr>)
     = json_response 200 (JObj [(''id'', JNum 9007199254740992)])"
  by (simp add: dispatch_by_id find_participant_def strict_equals_number_def get_field_def
      parseInt_rounds)

text \<open>
  C2. A search request with an empty or absent \<open>q\<close> returns the whole collection with
  status 200, and with a non-empty \<open>q\<close> the records whose search string contains it.
  The route \<open>/api/participants/:id\<close> is registered before \<open>/api/participants/search\<close>
  and takes the request with \<open>search\<close> as the id: whatever the query and the store,
  the answer is the 404 of the lookup by id.
\<close>

theorem search_route_is_shadowed:
  "dispatch ev (read_request [''api'', ''participants'', ''search''] q) s = (not_found, s)"
  by (simp add: dispatch_by_id find_participant_def parseInt_search find_never)

text \<open>The handler behind the shadowed route returns the whole collection when the query is empty or absent.\<close>

lemma search_handler_without_query:
  "\<not> truthy (query_q req) \<Longrightarrow>
     search_participants ev req ps s = (Inr (json_response 200 (JArr (map JObj (participants s)))), s)"
  by (simp add: search_participants_def)

section \<open>Clearing the store\<close>

text \<open>
  C8. For every store, the clear request succeeds; afterwards the list of all
  participants is empty and the counter is back at 1, so that the next create
  request assigns id 1 (which a body without an \<open>id\<close> of its own keeps).
\<close>

theorem clear_resets_store:
  "dispatch ev clear_request s =
     (json_response 200 (JObj [(''message'', JStr ''All participants deleted'')]),
      \<lparr>participants = [], participantIdCounter = 1\<rparr>) \<and>
   fst (dispatch ev' (read_request [''api'', ''participants''] q)
          (snd (dispatch ev clear_request s))) = json_response 200 (JArr []) \<and>
   fst (dispatch ev'' (create_request b) (snd (dispatch ev clear_request s)))
     = json_response 201 (JObj (new_participant ev'' 1 b)) \<and>
   (''id'' \<notin> fst ` set b \<longrightarrow> get_field (new_participant ev'' 1 b) ''id'' = Some (JNum 1))"
  by (simp add: dispatch_clear dispatch_list dispatch_create initial_store_def
      new_participant_id_fresh)

theorem clear_resets_store_witness:
  "''id'' \<notin> fst ` set [(''name'', JStr ''C'')] \<and>
   snd (dispatch sample_env clear_request sample_store) = initial_store \<and>
   fst (dispatch sample_env (create_request [(''name'', JStr ''C'')])
          (snd (dispatch sample_env clear_request sample_store)))
     = json_response 201
         (JObj [(''id'', JNum 1), (''name'', JStr ''C''),
                (''timestamp'', JStr ''2024-05-01T12:00:00.000Z'')])"
proof -
  note t = clear_resets_store [of sample_env sample_store sample_env None sample_env
      "[(''name'', JStr ''C'')]"]
  have fresh: "''id'' \<notin> fst ` set [(''name'', JStr ''C'')]" by simp
  from t have cleared: "snd (dispatch sample_env clear_request sample_store) = initial_store"
    by (simp add: initial_store_def)
  from t have created:
    "fst (dispatch sample_env (create_request [(''name'', JStr ''C'')])
            (snd (dispatch sample_env clear_request sample_store)))
       = json_response 201 (JObj (new_participant sample_env 1 [(''name'', JStr ''C'')]))"
    by blast
  have stored: "new_participant sample_env 1 [(''name'', JStr ''C'')]
      = [(''id'', JNum 1), (''name'', JStr ''C''),
         (''timestamp'', JStr ''2024-05-01T12:00:00.000Z'')]"
    by (simp add: new_participant_def sample_env_def)
  show ?thesis using fresh cleared created stored by simp
qed

section \<open>Requests that only read\<close>

lemma get_participants_frame: "snd (get_participants ev req ps s) = s"
  by (simp add: get_participants_def)

lemma get_participant_by_id_frame: "snd (get_participant_by_id ev req ps s) = s"
  by (simp add: get_participant_by_id_def split: option.splits)

lemma get_statistics_frame: "snd (get_statistics ev req ps s) = s"
  by (simp add: get_statistics_def split: sum.splits)

lemma get_by_office_frame: "snd (get_by_office ev req ps s) = s"
  by (simp add: get_by_office_def split: sum.splits)

lemma get_by_profile_frame: "snd (get_by_profile ev req ps s) = s"
  by (simp add: get_by_profile_def)

lemma search_participants_frame: "snd (search_participants ev req ps s) = s"
  by (simp add: search_participants_def split: sum.splits)

lemma export_csv_frame: "snd (export_csv ev req ps s) = s"
  by (simp add: export_csv_def split: sum.splits)

lemma health_frame: "snd (health ev req ps s) = s"
  by (simp add: health_def)

lemmas read_frames = get_participants_frame get_participant_by_id_frame get_statistics_frame
  get_by_office_frame get_by_profile_frame search_participants_frame export_csv_frame
  health_frame

lemma get_dispatch_frame:
  assumes "req_method req = GET"
  shows "snd (dispatch ev req s) = s"
proof (cases "first_match routes req")
  case None
  then show ?thesis by (simp add: snd_dispatch)
next
  case (Some hp)
  obtain h ps where hp: "hp = (h, ps)" by (cases hp)
  from Some hp have "(req_method req, h) \<in> (\<lambda>(m, pat, h). (m, h)) ` set routes"
    using first_match_in_table by blast
  with assms have "h \<in> {get_participants, get_participant_by_id, get_statistics, get_by_office,
      get_by_profile, search_participants, export_csv, health}"
    by (auto simp: routes_def)
  then have "snd (h ev req ps s) = s"
    using read_frames by auto
  with Some hp show ?thesis by (simp add: snd_dispatch)
qed

lemma post_participant_changes: "snd (post_participant ev req ps s) \<noteq> s"
proof
  assume "snd (post_participant ev req ps s) = s"
  then have "participantIdCounter (snd (post_participant ev req ps s)) = participantIdCounter s"
    by simp
  then show False by (simp add: post_participant_def Let_def)
qed

text \<open>
  C9. The handlers of the read operations (list, lookup by id, filter by office,
  filter by profile, search, statistics, CSV export, health) return the store they
  were given, whether they answer or throw; so does the router on every GET request.
  The create handler always changes the store and the clear handler resets it.
\<close>

theorem reads_leave_store:
  "snd (get_participants ev req ps s) = s \<and>
   snd (get_participant_by_id ev req ps s) = s \<and>
   snd (get_by_office ev req ps s) = s \<and>
   snd (get_by_profile ev req ps s) = s \<and>
   snd (search_participants ev req ps s) = s \<and>
   snd (get_statistics ev req ps s) = s \<and>
   snd (export_csv ev req ps s) = s \<and>
   snd (health ev req ps s) = s \<and>
   (req_method req = GET \<longrightarrow> snd (dispatch ev req s) = s) \<and>
   snd (post_participant ev req ps s) \<noteq> s \<and>
   snd (delete_participants ev req ps s) = initial_store"
  by (simp add: read_frames get_dispatch_frame post_participant_changes
      delete_participants_def initial_store_def)

theorem reads_leave_store_witness:
  "req_method (read_request [''api'', ''statistics''] None) = GET \<and>
   snd (dispatch sample_env (read_request [''api'', ''statistics''] None) sample_store)
     = sample_store \<and>
   snd (search_participants sample_env (read_request [''api'', ''participants'', ''search'']
          (Some (JStr ''a''))) [] sample_store) = sample_store"
  using reads_leave_store [of sample_env "read_request [''api'', ''statistics''] None" "[]"
      sample_store]
    reads_leave_store [of sample_env
      "read_request [''api'', ''participants'', ''search''] (Some (JStr ''a''))" "[]" sample_store]
  by (simp add: read_request_def)

section \<open>Splitting the office text\<close>

lemma split_on_first:
  "at_index (split_on c s) 0 = Some (takeWhile (\<lambda>x. x \<noteq> c) s)"
  by (induction s) (auto simp: at_index_def split: list.splits)



section \<open>Statistics\<close>

lemma dispatch_statistics:
  "dispatch ev (read_request [''api'', ''statistics''] q) s =
     (case compute_statistics ev (participants s) of
        Inl e \<Rightarrow> server_error
      | Inr stats \<Rightarrow> json_response 200 (JObj stats), s)"
  by (simp add: dispatch_def routes_def read_request_def is_parameter_def get_statistics_def
      split: sum.splits)

lemma office_key_conforming:
  "text_or_missing (get_field p ''congressionalOffice'') \<Longrightarrow> office_key p = Inr (spec_office_key p)"
  by (auto simp: text_or_missing_def office_key_def spec_office_key_def split_on_first
      split: option.splits json.splits)

lemma unique_offices_conforming:
  assumes "\<forall>p \<in> set xs. text_or_missing (get_field p ''congressionalOffice'')"
  shows "unique_offices xs = Inr (card (spec_office_key ` set xs))"
proof -
  have "map_throwing office_key xs = Inr (map spec_office_key xs)"
    using assms by (intro map_throwing_total) (simp add: office_key_conforming)
  then show ?thesis
    by (simp add: unique_offices_def length_remdups_card_conv)
qed

lemma unique_offices_throws:
  "get_field p ''congressionalOffice'' = Some (JNum n) \<Longrightarrow> p \<in> set xs \<Longrightarrow>
     unique_offices xs = Inl TypeError"
proof (induction xs)
  case Nil
  then show ?case by simp
next
  case (Cons x xs)
  then show ?case
    by (cases "office_key x"; cases "map_throwing office_key xs")
       (auto simp: unique_offices_def office_key_def only_error split: sum.splits)
qed

lemma property_key_conforming:
  "text_or_missing (get_field p f) \<Longrightarrow> property_key f p = Inr (text_key (get_field p f))"
  by (auto simp: text_or_missing_def property_key_def template_def text_key_def
      split: option.splits json.splits)


lemma distribution_conforming:
  assumes "\<forall>p \<in> set xs. text_or_missing (get_field p f)"
  shows "distribution f xs = Inr (foldl bump [] (map (\<lambda>p. text_key (get_field p f)) xs))"
proof -
  have "map_throwing (property_key f) xs = Inr (map (\<lambda>p. text_key (get_field p f)) xs)"
    using assms by (intro map_throwing_total) (simp add: property_key_conforming)
  then show ?thesis by (simp add: distribution_def)
qed

lemma bump_other:
  "map_of (bump d x) k = map_of d k" if "x \<noteq> k"
proof (cases "map_of d x")
  case None
  then show ?thesis using that by (simp add: bump_def update_conv')
next
  case (Some t)
  then show ?thesis using that by (cases t) (simp_all add: bump_def update_conv')
qed

lemma bump_same:
  assumes "k \<noteq> ''__proto__''" "k \<notin> set object_prototype_functions"
    and "map_of d k = (if n = 0 then None else Some (Count (int n)))"
  shows "map_of (bump d k) k = Some (Count (int (Suc n)))"
  using assms by (simp add: bump_def update_conv' split: option.splits tally.splits if_splits)

lemma foldl_bump_count:
  assumes "k \<noteq> ''__proto__''" "k \<notin> set object_prototype_functions"
    and "map_of d k = (if n = 0 then None else Some (Count (int n)))"
  shows "map_of (foldl bump d ks) k =
     (if n + length (filter (\<lambda>x. x = k) ks) = 0 then None
      else Some (Count (int (n + length (filter (\<lambda>x. x = k) ks)))))"
  using assms(3)
proof (induction ks arbitrary: d n)
  case Nil
  then show ?case by simp
next
  case (Cons x ks)
  show ?case
  proof (cases "x = k")
    case True
    have "map_of (bump d k) k = (if Suc n = 0 then None else Some (Count (int (Suc n))))"
      using bump_same [OF assms(1,2) Cons.prems] by simp
    from Cons.IH [OF this] True show ?thesis by simp
  next
    case False
    have "map_of (bump d x) k = (if n = 0 then None else Some (Count (int n)))"
      using Cons.prems False by (simp add: bump_other)
    from Cons.IH [OF this] False show ?thesis by simp
  qed
qed

lemma undefined_is_plain:
  "''undefined'' \<noteq> ''__proto__''" "''undefined'' \<notin> set object_prototype_functions"
  by (simp_all add: object_prototype_functions_def)

lemma text_key_undefined:
  "text_or_missing v \<Longrightarrow> text_key v = ''undefined'' \<longleftrightarrow> v = None \<or> v = Some (JStr ''undefined'')"
  by (auto simp: text_or_missing_def text_key_def split: option.splits json.splits)

lemma map_of_distribution_json:
  "map_of (map (\<lambda>kv. (fst kv, tally_json (snd kv))) d) k = map_option tally_json (map_of d k)"
  by (induction d) auto

lemma undefined_bucket_conforming:
  assumes "\<forall>p \<in> set xs. text_or_missing (get_field p f)"
  shows "map_of (map (\<lambda>kv. (fst kv, tally_json (snd kv)))
           (foldl bump [] (map (\<lambda>p. text_key (get_field p f)) xs))) ''undefined''
         = undefined_bucket f xs"
proof -
  have same: "filter (\<lambda>p. text_key (get_field p f) = ''undefined'') xs
      = filter (absent_or_undefined_text f) xs"
    using assms by (intro filter_cong) (auto simp: text_key_undefined absent_or_undefined_text_def)
  have count: "length (filter (\<lambda>x. x = ''undefined'') (map (\<lambda>p. text_key (get_field p f)) xs))
      = length (filter (absent_or_undefined_text f) xs)"
    by (simp add: filter_map comp_def same)
  have "map_of ([] :: (string \<times> tally) list) ''undefined''
      = (if (0::nat) = 0 then None else Some (Count (int 0)))"
    by simp
  from foldl_bump_count [OF undefined_is_plain this,
      of "map (\<lambda>p. text_key (get_field p f)) xs"]
  have "map_of (foldl bump [] (map (\<lambda>p. text_key (get_field p f)) xs)) ''undefined''
      = (if length (filter (absent_or_undefined_text f) xs) = 0 then None
         else Some (Count (int (length (filter (absent_or_undefined_text f) xs)))))"
    unfolding count by simp
  then show ?thesis
    unfolding map_of_distribution_json undefined_bucket_def Let_def
    by (simp add: tally_json_def)
qed


lemma or_zero_traits_conforming:
  "sequence_or_missing (get_field p ''selectedTraits'') \<Longrightarrow>
     or_zero (traits_length p) = JNum (int (spec_traits_count p))"
  by (auto simp: sequence_or_missing_def traits_length_def or_zero_def spec_traits_count_def
      split: option.splits json.splits)

lemma total_traits_conforming:
  assumes "\<forall>p \<in> set xs. sequence_or_missing (get_field p ''selectedTraits'')"
  shows "total_traits (Number a) xs = Inr (Number (a + int (sum_list (map spec_traits_count xs))))"
  using assms
  by (induction xs arbitrary: a) (simp_all add: or_zero_traits_conforming js_add_def)

lemma avg_traits_conforming:
  assumes "\<forall>p \<in> set xs. sequence_or_missing (get_field p ''selectedTraits'')"
  shows "avg_traits ev xs =
     Inr (JNum (if xs = [] then 0
                else round (of_nat (sum_list (map spec_traits_count xs)) / of_nat (length xs) :: rat)))"
  using total_traits_conforming [OF assms, of 0]
  by (simp add: avg_traits_def math_round_def round_def)

lemma conforming_statistics:
  assumes "list_all conforms xs"
  shows "compute_statistics ev xs =
     Inr [(''totalParticipants'', JNum (int (length xs))),
          (''uniqueOffices'', JNum (int (card (spec_office_key ` set xs)))),
          (''profileDistribution'',
             distribution_json (foldl bump [] (map (\<lambda>p. text_key (get_field p ''audienceProfile'')) xs))),
          (''concernDistribution'',
             distribution_json (foldl bump [] (map (\<lambda>p. text_key (get_field p ''primaryConcern'')) xs))),
          (''avgTraitsSelected'',
             JNum (if xs = [] then 0
                   else round (of_nat (sum_list (map spec_traits_count xs)) / of_nat (length xs) :: rat))),
          (''completionRate'', JNum 100),
          (''lastUpdated'', JStr (iso_now ev))]"
proof -
  from assms have c: "\<forall>p \<in> set xs. conforms p" by (simp add: list_all_iff)
  then have
    "\<forall>p \<in> set xs. text_or_missing (get_field p ''congressionalOffice'')"
    "\<forall>p \<in> set xs. text_or_missing (get_field p ''audienceProfile'')"
    "\<forall>p \<in> set xs. text_or_missing (get_field p ''primaryConcern'')"
    "\<forall>p \<in> set xs. sequence_or_missing (get_field p ''selectedTraits'')"
    by (simp_all add: conforms_def)
  then show ?thesis
    by (simp add: compute_statistics_def unique_offices_conforming distribution_conforming
        avg_traits_conforming)
qed

text \<open>
  Outside the data model the statistics can fail: one record with a number as
  \<open>congressionalOffice\<close> makes every statistics request end in the 500 answer.
\<close>

lemma statistics_fault:
  assumes "get_field p ''congressionalOffice'' = Some (JNum n)" "p \<in> set (participants s)"
  shows "dispatch ev (read_request [''api'', ''statistics''] q) s = (server_error, s)"
  using unique_offices_throws [OF assms]
  by (simp add: dispatch_statistics compute_statistics_def)

lemma office_key_throws:
  "\<not> text_or_missing (get_field p ''congressionalOffice'') \<Longrightarrow> office_key p = Inl TypeError"
  by (auto simp: text_or_missing_def office_key_def split: option.splits json.splits)

lemma unique_offices_faults:
  assumes "\<exists>p \<in> set xs. \<not> text_or_missing (get_field p ''congressionalOffice'')"
  shows "unique_offices xs = Inl TypeError"
proof -
  from assms have "\<exists>p \<in> set xs. office_key p = Inl TypeError"
    using office_key_throws by blast
  then show ?thesis by (simp add: unique_offices_def map_throwing_throws)
qed

lemma statistics_status:
  "status (fst (dispatch ev (read_request [''api'', ''statistics''] q) s)) = 200 \<longleftrightarrow>
     (\<exists>stats. compute_statistics ev (participants s) = Inr stats)"
  by (cases "compute_statistics ev (participants s)")
     (simp_all add: dispatch_statistics json_response_def server_error_def)

lemma statistics_answers:
  "compute_statistics ev xs \<noteq> Inl TypeError \<longleftrightarrow>
     unique_offices xs \<noteq> Inl TypeError \<and>
     distribution ''audienceProfile'' xs \<noteq> Inl TypeError \<and>
     distribution ''primaryConcern'' xs \<noteq> Inl TypeError \<and>
     avg_traits ev xs \<noteq> Inl TypeError"
  by (auto simp: compute_statistics_def only_error split: sum.splits)

lemma statistics_fields:
  assumes "compute_statistics ev xs = Inr stats"
  shows "\<exists>u avg. unique_offices xs = Inr u \<and> avg_traits ev xs = Inr avg \<and>
           map_of stats ''uniqueOffices'' = Some (JNum (int u)) \<and>
           map_of stats ''avgTraitsSelected'' = Some avg"
  using assms by (auto simp: compute_statistics_def split: sum.splits)

text \<open>
  C4. For every store the statistics give, as \<open>uniqueOffices\<close>, the number of distinct
  office keys. After a create request with the number 5 as \<open>congressionalOffice\<close>
  the statistics request is answered with 500 and gives no \<open>uniqueOffices\<close> at all.
\<close>

theorem unique_offices_counterexample:
  "fst (dispatch sample_env (read_request [''api'', ''statistics''] None)
          (snd (dispatch sample_env (create_request [(''congressionalOffice'', JNum 5)])
                  initial_store)))
     = \<lparr>status = 500, headers = [],
        payload = Json (JObj [(''error'', JStr ''Something went wrong!'')])\<rparr>"
  by (simp add: dispatch_create dispatch_statistics compute_statistics_def unique_offices_def
      office_key_def get_field_def new_participant_def initial_store_def server_error_def
      json_response_def)

text \<open>
  C4 as amended. The statistics request never changes the store. When some record
  holds a \<open>congressionalOffice\<close> that is neither missing nor text, the answer is 500.
  When every \<open>congressionalOffice\<close> is text or missing, the number of distinct
  office keys is computed, and the answer is either 500 (another field made the
  handler throw) or 200 with that number as \<open>uniqueOffices\<close>; it is 200 whenever the
  distributions and the average are computed without an exception. The office key is
  the text before the first bar, the whole text without a bar, and one undefined value
  shared by all records without the field.
\<close>

theorem unique_offices_counts_keys:
  "snd (dispatch ev (read_request [''api'', ''statistics''] q) s) = s \<and>
   ((\<exists>p \<in> set (participants s). \<not> text_or_missing (get_field p ''congressionalOffice'')) \<longrightarrow>
      fst (dispatch ev (read_request [''api'', ''statistics''] q) s)
        = \<lparr>status = 500, headers = [],
           payload = Json (JObj [(''error'', JStr ''Something went wrong!'')])\<rparr>) \<and>
   ((\<forall>p \<in> set (participants s). text_or_missing (get_field p ''congressionalOffice'')) \<longrightarrow>
      unique_offices (participants s) = Inr (card (spec_office_key ` set (participants s))) \<and>
      (fst (dispatch ev (read_request [''api'', ''statistics''] q) s)
         = \<lparr>status = 500, headers = [],
            payload = Json (JObj [(''error'', JStr ''Something went wrong!'')])\<rparr> \<or>
       status (fst (dispatch ev (read_request [''api'', ''statistics''] q) s)) = 200 \<and>
       body_field (fst (dispatch ev (read_request [''api'', ''statistics''] q) s))
           ''uniqueOffices''
         = Some (JNum (int (card (spec_office_key ` set (participants s)))))) \<and>
      (distribution ''audienceProfile'' (participants s) \<noteq> Inl TypeError \<and>
       distribution ''primaryConcern'' (participants s) \<noteq> Inl TypeError \<and>
       avg_traits ev (participants s) \<noteq> Inl TypeError \<longrightarrow>
         status (fst (dispatch ev (read_request [''api'', ''statistics''] q) s)) = 200))"
proof (intro conjI impI)
  show "snd (dispatch ev (read_request [''api'', ''statistics''] q) s) = s"
    by (simp add: dispatch_statistics)
next
  assume "\<exists>p \<in> set (participants s). \<not> text_or_missing (get_field p ''congressionalOffice'')"
  then have "compute_statistics ev (participants s) = Inl TypeError"
    by (simp add: compute_statistics_def unique_offices_faults)
  then show "fst (dispatch ev (read_request [''api'', ''statistics''] q) s)
        = \<lparr>status = 500, headers = [],
           payload = Json (JObj [(''error'', JStr ''Something went wrong!'')])\<rparr>"
    by (simp add: dispatch_statistics server_error_def json_response_def)
next
  assume ok: "\<forall>p \<in> set (participants s). text_or_missing (get_field p ''congressionalOffice'')"
  show u: "unique_offices (participants s) = Inr (card (spec_office_key ` set (participants s)))"
    by (rule unique_offices_conforming [OF ok])
  show "fst (dispatch ev (read_request [''api'', ''statistics''] q) s)
         = \<lparr>status = 500, headers = [],
            payload = Json (JObj [(''error'', JStr ''Something went wrong!'')])\<rparr> \<or>
       status (fst (dispatch ev (read_request [''api'', ''statistics''] q) s)) = 200 \<and>
       body_field (fst (dispatch ev (read_request [''api'', ''statistics''] q) s))
           ''uniqueOffices''
         = Some (JNum (int (card (spec_office_key ` set (participants s)))))"
  proof (cases "compute_statistics ev (participants s)")
    case (Inl e)
    then show ?thesis
      by (simp add: dispatch_statistics server_error_def json_response_def)
  next
    case (Inr stats)
    with statistics_fields [OF Inr] u show ?thesis
      by (auto simp: dispatch_statistics json_response_def body_field_def)
  qed
  assume "distribution ''audienceProfile'' (participants s) \<noteq> Inl TypeError \<and>
       distribution ''primaryConcern'' (participants s) \<noteq> Inl TypeError \<and>
       avg_traits ev (participants s) \<noteq> Inl TypeError"
  with u have "compute_statistics ev (participants s) \<noteq> Inl TypeError"
    by (simp add: statistics_answers)
  then show "status (fst (dispatch ev (read_request [''api'', ''statistics''] q) s)) = 200"
    by (cases "compute_statistics ev (participants s)")
       (simp_all add: only_error dispatch_statistics json_response_def)
qed


theorem unique_offices_counts_keys_witness:
  "list_all (\<lambda>p. text_or_missing (get_field p ''congressionalOffice''))
     [[(''congressionalOffice'', JStr ''12|Smith''), (''audienceProfile'', JNum 5)],
      [(''congressionalOffice'', JStr ''12|Jones'')],
      [(''congressionalOffice'', JStr ''34'')], [(''name'', JStr ''D'')], [(''name'', JStr ''E'')]] \<and>
   status (fst (dispatch sample_env (read_request [''api'', ''statistics''] None)
       \<lparr>participants =
          [[(''congressionalOffice'', JStr ''12|Smith''), (''audienceProfile'', JNum 5)],
           [(''congressionalOffice'', JStr ''12|Jones'')],
           [(''congressionalOffice'', JStr ''34'')], [(''name'', JStr ''D'')],
           [(''name'', JStr ''E'')]],
        participantIdCounter = 6\<rparr>)) = 200 \<and>
   body_field (fst (dispatch sample_env (read_request [''api'', ''statistics''] None)
       \<lparr>participants =
          [[(''congressionalOffice'', JStr ''12|Smith''), (''audienceProfile'', JNum 5)],
           [(''congressionalOffice'', JStr ''12|Jones'')],
           [(''congressionalOffice'', JStr ''34'')], [(''name'', JStr ''D'')],
           [(''name'', JStr ''E'')]],
        participantIdCounter = 6\<rparr>)) ''uniqueOffices'' = Some (JNum 3)"
proof -
  let ?xs = "[[(''congressionalOffice'', JStr ''12|Smith''), (''audienceProfile'', JNum 5)],
      [(''congressionalOffice'', JStr ''12|Jones'')],
      [(''congressionalOffice'', JStr ''34'')], [(''name'', JStr ''D'')], [(''name'', JStr ''E'')]]"
  let ?s = "\<lparr>participants = ?xs, participantIdCounter = 6\<rparr>"
  let ?r = "fst (dispatch sample_env (read_request [''api'', ''statistics''] None) ?s)"
  have ok: "\<forall>p \<in> set (participants ?s). text_or_missing (get_field p ''congressionalOffice'')"
    by (simp add: get_field_def text_or_missing_def)
  have keys: "spec_office_key ` set (participants ?s) = {Some ''12'', Some ''34'', None}"
    by (simp add: spec_office_key_def get_field_def insert_commute)
  have three: "card {Some ''12'', Some ''34'', None :: string option} = 3"
    by simp
  have rest: "distribution ''audienceProfile'' (participants ?s) \<noteq> Inl TypeError \<and>
       distribution ''primaryConcern'' (participants ?s) \<noteq> Inl TypeError \<and>
       avg_traits sample_env (participants ?s) \<noteq> Inl TypeError"
    by (simp add: distribution_def property_key_def template_def get_field_def show_int_def
        avg_traits_def traits_length_def or_zero_def js_add_def)
  note t = unique_offices_counts_keys [of sample_env None ?s]
  from t ok rest have answered: "status ?r = 200"
    by blast
  from t ok have "?r = \<lparr>status = 500, headers = [],
            payload = Json (JObj [(''error'', JStr ''Something went wrong!'')])\<rparr> \<or>
       status ?r = 200 \<and>
       body_field ?r ''uniqueOffices''
         = Some (JNum (int (card (spec_office_key ` set (participants ?s)))))"
    by blast
  with answered have "body_field ?r ''uniqueOffices''
         = Some (JNum (int (card (spec_office_key ` set (participants ?s)))))"
    by auto
  then have "body_field ?r ''uniqueOffices'' = Some (JNum 3)"
    unfolding keys three by simp
  with ok answered show ?thesis by (simp add: list_all_iff)
qed

lemma or_zero_traits_plain:
  "not_an_object (get_field p ''selectedTraits'') \<Longrightarrow>
     or_zero (traits_length p) = JNum (int (traits_count p))"
  by (auto simp: not_an_object_def traits_length_def or_zero_def traits_count_def
      split: option.splits json.splits)

lemma total_traits_plain:
  assumes "\<forall>p \<in> set xs. not_an_object (get_field p ''selectedTraits'')"
  shows "total_traits (Number a) xs = Inr (Number (a + int (sum_list (map traits_count xs))))"
  using assms
  by (induction xs arbitrary: a) (simp_all add: or_zero_traits_plain js_add_def)

lemma avg_traits_plain:
  assumes "\<forall>p \<in> set xs. not_an_object (get_field p ''selectedTraits'')"
  shows "avg_traits ev xs =
     Inr (JNum (if xs = [] then 0
                else round (of_nat (sum_list (map traits_count xs)) / of_nat (length xs) :: rat)))"
  using total_traits_plain [OF assms, of 0]
  by (simp add: avg_traits_def math_round_def round_def)

lemma floor_seven_halves: "\<lfloor>7 / 2 :: rat\<rfloor> = 3"
  by (rule floor_unique) simp_all

text \<open>
  C5. For every store the statistics give, as \<open>avgTraitsSelected\<close>, the rounded mean
  of the lengths of the \<open>selectedTraits\<close> sequences, a missing sequence counting 0.
  After a create request with two traits and the number 5 as \<open>congressionalOffice\<close>
  the statistics request is answered with 500 and gives no average; and a record whose
  \<open>selectedTraits\<close> is the string \<open>abc\<close>, which is no sequence of traits, counts 3.
\<close>

theorem avg_traits_counterexample:
  "fst (dispatch sample_env (read_request [''api'', ''statistics''] None)
          (snd (dispatch sample_env
                  (create_request [(''selectedTraits'', JArr [JStr ''x'', JStr ''y'']),
                                   (''congressionalOffice'', JNum 5)])
                  initial_store)))
     = \<lparr>status = 500, headers = [],
        payload = Json (JObj [(''error'', JStr ''Something went wrong!'')])\<rparr> \<and>
   body_field (fst (dispatch sample_env (read_request [''api'', ''statistics''] None)
          (snd (dispatch sample_env (create_request [(''selectedTraits'', JStr ''abc'')])
                  initial_store)))) ''avgTraitsSelected'' = Some (JNum 3)"
  by (simp add: dispatch_create dispatch_statistics compute_statistics_def unique_offices_def
      office_key_def get_field_def new_participant_def initial_store_def server_error_def
      json_response_def distribution_def property_key_def template_def avg_traits_def
      traits_length_def or_zero_def js_add_def math_round_def body_field_def
      floor_seven_halves)

text \<open>
  C5 as amended. The statistics request never changes the store. For every store in
  which no record holds a JSON object as \<open>selectedTraits\<close>, the average is computed
  as the mean of the lengths, rounded to the nearest integer with a tie going up, and
  as 0 for the empty collection; an array counts its elements, a string its code units,
  and a missing value, a number or a boolean counts 0. The answer is either 500
  (another field made the handler throw) or 200 with that value as
  \<open>avgTraitsSelected\<close>; it is 200 whenever the office count and the distributions are
  computed without an exception, and always for the empty collection.
\<close>

theorem avg_traits_is_rounded_mean:
  "snd (dispatch ev (read_request [''api'', ''statistics''] q) s) = s \<and>
   (participants s = [] \<longrightarrow>
      status (fst (dispatch ev (read_request [''api'', ''statistics''] q) s)) = 200 \<and>
      body_field (fst (dispatch ev (read_request [''api'', ''statistics''] q) s))
        ''avgTraitsSelected'' = Some (JNum 0)) \<and>
   ((\<forall>p \<in> set (participants s). not_an_object (get_field p ''selectedTraits'')) \<longrightarrow>
      avg_traits ev (participants s)
        = Inr (JNum (if participants s = [] then 0
                     else round (of_nat (sum_list (map traits_count (participants s)))
                                   / of_nat (length (participants s)) :: rat))) \<and>
      (fst (dispatch ev (read_request [''api'', ''statistics''] q) s)
         = \<lparr>status = 500, headers = [],
            payload = Json (JObj [(''error'', JStr ''Something went wrong!'')])\<rparr> \<or>
       status (fst (dispatch ev (read_request [''api'', ''statistics''] q) s)) = 200 \<and>
       body_field (fst (dispatch ev (read_request [''api'', ''statistics''] q) s))
           ''avgTraitsSelected''
         = Some (JNum (if participants s = [] then 0
                       else round (of_nat (sum_list (map traits_count (participants s)))
                                     / of_nat (length (participants s)) :: rat)))) \<and>
      (unique_offices (participants s) \<noteq> Inl TypeError \<and>
       distribution ''audienceProfile'' (participants s) \<noteq> Inl TypeError \<and>
       distribution ''primaryConcern'' (participants s) \<noteq> Inl TypeError \<longrightarrow>
         status (fst (dispatch ev (read_request [''api'', ''statistics''] q) s)) = 200))"
proof (intro conjI impI)
  show "snd (dispatch ev (read_request [''api'', ''statistics''] q) s) = s"
    by (simp add: dispatch_statistics)
next
  assume "participants s = []"
  then show "status (fst (dispatch ev (read_request [''api'', ''statistics''] q) s)) = 200"
    and "body_field (fst (dispatch ev (read_request [''api'', ''statistics''] q) s))
        ''avgTraitsSelected'' = Some (JNum 0)"
    by (simp_all add: dispatch_statistics compute_statistics_def unique_offices_def
        distribution_def avg_traits_def json_response_def body_field_def)
next
  assume ok: "\<forall>p \<in> set (participants s). not_an_object (get_field p ''selectedTraits'')"
  let ?m = "if participants s = [] then 0
            else round (of_nat (sum_list (map traits_count (participants s)))
                          / of_nat (length (participants s)) :: rat)"
  show a: "avg_traits ev (participants s) = Inr (JNum ?m)"
    by (rule avg_traits_plain [OF ok])
  show "fst (dispatch ev (read_request [''api'', ''statistics''] q) s)
         = \<lparr>status = 500, headers = [],
            payload = Json (JObj [(''error'', JStr ''Something went wrong!'')])\<rparr> \<or>
       status (fst (dispatch ev (read_request [''api'', ''statistics''] q) s)) = 200 \<and>
       body_field (fst (dispatch ev (read_request [''api'', ''statistics''] q) s))
           ''avgTraitsSelected'' = Some (JNum ?m)"
  proof (cases "compute_statistics ev (participants s)")
    case (Inl e)
    then show ?thesis
      by (simp add: dispatch_statistics server_error_def json_response_def)
  next
    case (Inr stats)
    with statistics_fields [OF Inr] a show ?thesis
      by (auto simp: dispatch_statistics json_response_def body_field_def)
  qed
  assume "unique_offices (participants s) \<noteq> Inl TypeError \<and>
       distribution ''audienceProfile'' (participants s) \<noteq> Inl TypeError \<and>
       distribution ''primaryConcern'' (participants s) \<noteq> Inl TypeError"
  with a have "compute_statistics ev (participants s) \<noteq> Inl TypeError"
    by (simp add: statistics_answers)
  then show "status (fst (dispatch ev (read_request [''api'', ''statistics''] q) s)) = 200"
    by (cases "compute_statistics ev (participants s)")
       (simp_all add: only_error dispatch_statistics json_response_def)
qed


theorem avg_traits_is_rounded_mean_witness:
  "list_all (\<lambda>p. not_an_object (get_field p ''selectedTraits'')) (participants sample_store) \<and>
   map traits_count (participants sample_store) = [2, 1] \<and>
   status (fst (dispatch sample_env (read_request [''api'', ''statistics''] None) sample_store))
     = 200 \<and>
   body_field (fst (dispatch sample_env (read_request [''api'', ''statistics''] None) sample_store))
     ''avgTraitsSelected'' = Some (JNum 2) \<and>
   participants initial_store = [] \<and>
   body_field (fst (dispatch sample_env (read_request [''api'', ''statistics''] None) initial_store))
     ''avgTraitsSelected'' = Some (JNum 0)"
proof -
  let ?r = "fst (dispatch sample_env (read_request [''api'', ''statistics''] None) sample_store)"
  have ok: "\<forall>p \<in> set (participants sample_store). not_an_object (get_field p ''selectedTraits'')"
    by (simp add: sample_store_def get_field_def not_an_object_def)
  have lens: "map traits_count (participants sample_store) = [2, 1]"
    by (simp add: sample_store_def traits_count_def get_field_def)
  have two: "length (participants sample_store) = 2" "participants sample_store \<noteq> []"
    by (simp_all add: sample_store_def)
  have r: "round (of_nat (sum_list [2, 1]) / of_nat 2 :: rat) = 2"
    by (simp add: round_def)
  have rest: "unique_offices (participants sample_store) \<noteq> Inl TypeError \<and>
       distribution ''audienceProfile'' (participants sample_store) \<noteq> Inl TypeError \<and>
       distribution ''primaryConcern'' (participants sample_store) \<noteq> Inl TypeError"
    by (simp add: sample_store_def unique_offices_def office_key_def distribution_def
        property_key_def template_def get_field_def)
  have empty: "participants initial_store = []"
    by (simp add: initial_store_def)
  note t = avg_traits_is_rounded_mean [of sample_env None sample_store]
  from t ok rest have answered: "status ?r = 200"
    by blast
  from t ok have "?r = \<lparr>status = 500, headers = [],
            payload = Json (JObj [(''error'', JStr ''Something went wrong!'')])\<rparr> \<or>
       status ?r = 200 \<and>
       body_field ?r ''avgTraitsSelected''
         = Some (JNum (if participants sample_store = [] then 0
                       else round (of_nat (sum_list (map traits_count (participants sample_store)))
                                     / of_nat (length (participants sample_store)) :: rat)))"
    by blast
  with answered have "body_field ?r ''avgTraitsSelected''
         = Some (JNum (if participants sample_store = [] then 0
                       else round (of_nat (sum_list (map traits_count (participants sample_store)))
                                     / of_nat (length (participants sample_store)) :: rat)))"
    by auto
  then have a: "body_field ?r ''avgTraitsSelected'' = Some (JNum 2)"
    unfolding lens two(1) using two(2) r by simp
  from avg_traits_is_rounded_mean [of sample_env None initial_store] empty
  have b: "body_field (fst (dispatch sample_env (read_request [''api'', ''statistics''] None)
      initial_store)) ''avgTraitsSelected'' = Some (JNum 0)"
    by blast
  show ?thesis using ok lens answered a empty b by (simp add: list_all_iff)
qed

lemma sample_store_conforms: "list_all conforms (participants sample_store)"
  by (simp add: sample_store_def conforms_def get_field_def text_or_missing_def
      sequence_or_missing_def)

text \<open>The sample store is the store after the two create requests of the example.\<close>

lemma sample_store_created:
  "snd (serve
     [(sample_env, create_request
         [(''name'', JStr ''A''), (''audienceProfile'', JStr ''p1''),
          (''primaryConcern'', JStr ''c1''), (''selectedTraits'', JArr [JStr ''x'', JStr ''y''])]),
      (sample_env, create_request
         [(''name'', JStr ''B''), (''audienceProfile'', JStr ''p1''),
          (''primaryConcern'', JStr ''c2''), (''selectedTraits'', JArr [JStr ''x''])])]
     initial_store) = sample_store"
  by (simp add: dispatch_create new_participant_def initial_store_def sample_store_def
      sample_env_def)

text \<open>
  C10. In both distributions of the statistics, a record without the field and a
  record whose field is the string \<open>undefined\<close> fall under the one key \<open>undefined\<close>:
  the entry under that key counts the records of either kind together.
\<close>

theorem undefined_key_is_shared:
  assumes "list_all conforms (participants s)"
  shows "(\<forall>p. absent_or_undefined_text ''audienceProfile'' p \<longrightarrow>
            property_key ''audienceProfile'' p = Inr ''undefined'') \<and>
         (\<forall>p. absent_or_undefined_text ''primaryConcern'' p \<longrightarrow>
            property_key ''primaryConcern'' p = Inr ''undefined'') \<and>
         (\<exists>pd cd.
            body_field (fst (dispatch ev (read_request [''api'', ''statistics''] q) s))
                ''profileDistribution'' = Some (JObj pd) \<and>
            body_field (fst (dispatch ev (read_request [''api'', ''statistics''] q) s))
                ''concernDistribution'' = Some (JObj cd) \<and>
            map_of pd ''undefined'' = undefined_bucket ''audienceProfile'' (participants s) \<and>
            map_of cd ''undefined'' = undefined_bucket ''primaryConcern'' (participants s))"
proof (intro conjI allI impI)
  fix p assume "absent_or_undefined_text ''audienceProfile'' p"
  then show "property_key ''audienceProfile'' p = Inr ''undefined''"
    by (auto simp: absent_or_undefined_text_def property_key_def template_def)
next
  fix p assume "absent_or_undefined_text ''primaryConcern'' p"
  then show "property_key ''primaryConcern'' p = Inr ''undefined''"
    by (auto simp: absent_or_undefined_text_def property_key_def template_def)
next
  from assms have c: "\<forall>p \<in> set (participants s). conforms p" by (simp add: list_all_iff)
  then have t:
    "\<forall>p \<in> set (participants s). text_or_missing (get_field p ''audienceProfile'')"
    "\<forall>p \<in> set (participants s). text_or_missing (get_field p ''primaryConcern'')"
    by (simp_all add: conforms_def)
  let ?pd = "map (\<lambda>kv. (fst kv, tally_json (snd kv)))
      (foldl bump [] (map (\<lambda>p. text_key (get_field p ''audienceProfile'')) (participants s)))"
  let ?cd = "map (\<lambda>kv. (fst kv, tally_json (snd kv)))
      (foldl bump [] (map (\<lambda>p. text_key (get_field p ''primaryConcern'')) (participants s)))"
  have "body_field (fst (dispatch ev (read_request [''api'', ''statistics''] q) s))
                ''profileDistribution'' = Some (JObj ?pd)"
    and "body_field (fst (dispatch ev (read_request [''api'', ''statistics''] q) s))
                ''concernDistribution'' = Some (JObj ?cd)"
    by (simp_all add: dispatch_statistics conforming_statistics [OF assms] body_field_def
        json_response_def distribution_json_def)
  moreover have "map_of ?pd ''undefined'' = undefined_bucket ''audienceProfile'' (participants s)"
    by (rule undefined_bucket_conforming [OF t(1)])
  moreover have "map_of ?cd ''undefined'' = undefined_bucket ''primaryConcern'' (participants s)"
    by (rule undefined_bucket_conforming [OF t(2)])
  ultimately show "\<exists>pd cd.
            body_field (fst (dispatch ev (read_request [''api'', ''statistics''] q) s))
                ''profileDistribution'' = Some (JObj pd) \<and>
            body_field (fst (dispatch ev (read_request [''api'', ''statistics''] q) s))
                ''concernDistribution'' = Some (JObj cd) \<and>
            map_of pd ''undefined'' = undefined_bucket ''audienceProfile'' (participants s) \<and>
            map_of cd ''undefined'' = undefined_bucket ''primaryConcern'' (participants s)"
    by blast
qed


theorem undefined_key_is_shared_witness:
  "list_all conforms
     [[(''name'', JStr ''A'')], [(''audienceProfile'', JStr ''undefined'')],
      [(''audienceProfile'', JStr ''p1'')]] \<and>
   absent_or_undefined_text ''audienceProfile'' [(''name'', JStr ''A'')] \<and>
   property_key ''audienceProfile'' [(''name'', JStr ''A'')] = Inr ''undefined'' \<and>
   (\<exists>pd. body_field (fst (dispatch sample_env (read_request [''api'', ''statistics''] None)
              \<lparr>participants =
                 [[(''name'', JStr ''A'')], [(''audienceProfile'', JStr ''undefined'')],
                  [(''audienceProfile'', JStr ''p1'')]],
               participantIdCounter = 4\<rparr>)) ''profileDistribution'' = Some (JObj pd) \<and>
          map_of pd ''undefined'' = Some (JNum 2))"
proof -
  let ?xs = "[[(''name'', JStr ''A'')], [(''audienceProfile'', JStr ''undefined'')],
      [(''audienceProfile'', JStr ''p1'')]]"
  have ok: "list_all conforms (participants \<lparr>participants = ?xs, participantIdCounter = 4\<rparr>)"
    by (simp add: conforms_def get_field_def text_or_missing_def sequence_or_missing_def)
  have absent: "absent_or_undefined_text ''audienceProfile'' [(''name'', JStr ''A'')]"
    by (simp add: absent_or_undefined_text_def get_field_def)
  have bucket: "undefined_bucket ''audienceProfile'' ?xs = Some (JNum 2)"
    by (simp add: undefined_bucket_def absent_or_undefined_text_def get_field_def)
  note t = undefined_key_is_shared [OF ok, of sample_env None]
  from t absent have key: "property_key ''audienceProfile'' [(''name'', JStr ''A'')] = Inr ''undefined''"
    by blast
  from t bucket have "\<exists>pd. body_field (fst (dispatch sample_env
        (read_request [''api'', ''statistics''] None)
        \<lparr>participants = ?xs, participantIdCounter = 4\<rparr>)) ''profileDistribution'' = Some (JObj pd) \<and>
      map_of pd ''undefined'' = Some (JNum 2)"
    by auto
  with ok absent key show ?thesis by simp
qed

section \<open>The CSV export\<close>












end
